theory Spec2Isabelle
  imports Complex_Main
begin

section \<open>Strings and dictionaries as the program uses them\<close>

text \<open>
  Python strings are modelled as \<open>string\<close> (byte lists); \<open>str.lower\<close> and \<open>str.strip\<close> are
  modelled on ASCII. Python floats are modelled as \<open>real\<close>: the arithmetic is exact, and
  rounding is not modelled.
\<close>

definition is_digit :: "char \<Rightarrow> bool" where
  "is_digit c = (c \<in> set ''0123456789'')"

definition is_space :: "char \<Rightarrow> bool" where
  "is_space c = (c \<in> set [CHR '' '', CHR 0x09, CHR 0x0A, CHR 0x0B, CHR 0x0C, CHR 0x0D,
                           CHR 0x1C, CHR 0x1D, CHR 0x1E, CHR 0x1F])"

definition lower_char :: "char \<Rightarrow> char" where
  "lower_char c =
     (case map_of (zip ''ABCDEFGHIJKLMNOPQRSTUVWXYZ'' ''abcdefghijklmnopqrstuvwxyz'') c of
        Some l \<Rightarrow> l
      | None \<Rightarrow> c)"

definition lower :: "string \<Rightarrow> string" where
  "lower s = map lower_char s"

definition strip :: "string \<Rightarrow> string" where
  "strip s = rev (dropWhile is_space (rev (dropWhile is_space s)))"

text \<open>
  A dictionary whose values are \<open>Optional[str]\<close>: an association list, read with
  \<open>map_of\<close> as \<open>dict.get\<close> reads it. A key that is missing and a key bound to \<open>None\<close>
  both read as falsy.
\<close>

type_synonym pydict = "(string \<times> string option) list"

definition get_or_empty :: "pydict \<Rightarrow> string \<Rightarrow> string" where
  \<comment> \<open>\<open>d.get(k) or ""\<close>\<close>
  "get_or_empty d k = (case map_of d k of Some (Some v) \<Rightarrow> v | _ \<Rightarrow> '''')"

definition truthy :: "string option \<Rightarrow> bool" where
  "truthy v = (case v of Some s \<Rightarrow> s \<noteq> [] | None \<Rightarrow> False)"

definition any_values :: "pydict \<Rightarrow> bool" where
  \<comment> \<open>\<open>any(d.values())\<close>\<close>
  "any_values d = list_ex (\<lambda>kv. truthy (snd kv)) d"

section \<open>The sequence-matcher ratio of the standard library\<close>

text \<open>
  \<open>SequenceMatcher(None, a, b).ratio()\<close> belongs to Python's \<open>difflib\<close>, not to this
  repository. The functions of the program take it as the parameter \<open>sm\<close>. For concrete
  inputs, \<open>seq_ratio\<close> below follows \<open>difflib\<close> for strings on which its popularity
  heuristic stays off (fewer than 200 characters): the longest common block, earliest in
  \<open>a\<close> and then earliest in \<open>b\<close>, is matched first and the pieces to its left and to its
  right are matched recursively; the ratio is twice the matched length over the total length.
\<close>

fun common_prefix :: "'a list \<Rightarrow> 'a list \<Rightarrow> nat" where
  "common_prefix (x # xs) (y # ys) = (if x = y then Suc (common_prefix xs ys) else 0)"
| "common_prefix _ _ = 0"

definition longer_match :: "'a list \<Rightarrow> 'a list \<Rightarrow> nat \<times> nat \<times> nat \<Rightarrow> nat \<times> nat \<Rightarrow> nat \<times> nat \<times> nat" where
  "longer_match a b best ij =
     (let k = common_prefix (drop (fst ij) a) (drop (snd ij) b)
      in if snd (snd best) < k then (fst ij, snd ij, k) else best)"

definition find_longest_match :: "'a list \<Rightarrow> 'a list \<Rightarrow> nat \<times> nat \<times> nat" where
  "find_longest_match a b =
     foldl (longer_match a b) (0, 0, 0) (List.product [0..<length a] [0..<length b])"

definition ratio_in_unit :: "(string \<Rightarrow> string \<Rightarrow> real) \<Rightarrow> bool" where
  "ratio_in_unit sm = (\<forall>a b. 0 \<le> sm a b \<and> sm a b \<le> 1)"

lemma common_prefix_le1: "common_prefix xs ys \<le> length xs"
  by (induction xs ys rule: common_prefix.induct) auto

lemma common_prefix_le2: "common_prefix xs ys \<le> length ys"
  by (induction xs ys rule: common_prefix.induct) auto

lemma common_prefix_same: "common_prefix xs xs = length xs"
  by (induction xs) auto

definition match_ok :: "'a list \<Rightarrow> 'a list \<Rightarrow> nat \<times> nat \<times> nat \<Rightarrow> bool" where
  "match_ok a b m = (case m of (i, j, k) \<Rightarrow> i + k \<le> length a \<and> j + k \<le> length b \<and> (0 < k \<longrightarrow> i < length a))"

lemma longer_match_ok: "match_ok a b m \<Longrightarrow> match_ok a b (longer_match a b m ij)"
proof -
  assume m: "match_ok a b m"
  obtain i j where ij: "ij = (i, j)" by (cases ij)
  let ?k = "common_prefix (drop i a) (drop j b)"
  have k1: "?k \<le> length a - i" using common_prefix_le1 [of "drop i a" "drop j b"] by simp
  have k2: "?k \<le> length b - j" using common_prefix_le2 [of "drop i a" "drop j b"] by simp
  show ?thesis
  proof (cases "snd (snd m) < ?k")
    case True
    then have pos: "0 < ?k" by simp
    from pos k1 have "i + ?k \<le> length a" "i < length a" by arith+
    moreover from pos k2 have "j + ?k \<le> length b" by arith
    ultimately show ?thesis using True ij by (simp add: longer_match_def match_ok_def)
  next
    case False
    then show ?thesis using m ij by (simp add: longer_match_def)
  qed
qed

lemma foldl_match_ok: "match_ok a b m \<Longrightarrow> match_ok a b (foldl (longer_match a b) m ps)"
  by (induction ps arbitrary: m) (simp_all add: longer_match_ok)

lemma find_longest_match_ok: "match_ok a b (find_longest_match a b)"
  unfolding find_longest_match_def
  by (rule foldl_match_ok) (simp add: match_ok_def)

function matched :: "'a list \<Rightarrow> 'a list \<Rightarrow> nat" where
  "matched a b =
     (case find_longest_match a b of
        (i, j, k) \<Rightarrow>
          if k = 0 then 0
          else matched (take i a) (take j b) + k + matched (drop (i + k) a) (drop (j + k) b))"
  by pat_completeness auto
termination
proof (relation "measure (\<lambda>(a, b). length a)")
  show "wf (measure (\<lambda>(a, b). length a))" by simp
next
  fix a b :: "'a list" and x i y j k
  assume "(i, y) = find_longest_match a b" "(j, k) = y" "k \<noteq> 0"
  then have "match_ok a b (i, j, k)" using find_longest_match_ok [of a b] by simp
  with \<open>k \<noteq> 0\<close> show "((take i a, take j b), (a, b)) \<in> measure (\<lambda>(a, b). length a)"
    by (simp add: match_ok_def)
next
  fix a b :: "'a list" and x i y j k
  assume "(i, y) = find_longest_match a b" "(j, k) = y" "k \<noteq> 0"
  then have "match_ok a b (i, j, k)" using find_longest_match_ok [of a b] by simp
  with \<open>k \<noteq> 0\<close> have "length a - (i + k) < length a"
    unfolding match_ok_def by simp arith
  then show "((drop (i + k) a, drop (j + k) b), (a, b)) \<in> measure (\<lambda>(a, b). length a)"
    by simp
qed

declare matched.simps [simp del]

definition seq_ratio :: "string \<Rightarrow> string \<Rightarrow> real" where
  "seq_ratio a b =
     (if length a + length b = 0 then 1
      else 2 * real (matched a b) / real (length a + length b))"

lemma matched_le: "matched a b \<le> length a \<and> matched a b \<le> length b"
proof (induction a b rule: matched.induct)
  case (1 a b)
  obtain i j k where m: "find_longest_match a b = (i, j, k)" by (cases "find_longest_match a b")
  have ok: "i + k \<le> length a" "j + k \<le> length b" "0 < k \<longrightarrow> i < length a"
    using find_longest_match_ok [of a b] m by (simp_all add: match_ok_def)
  show ?case
  proof (cases "k = 0")
    case True
    then have "matched a b = 0" using m by (subst matched.simps) simp
    then show ?thesis by simp
  next
    case False
    have l: "matched (take i a) (take j b) \<le> length (take i a) \<and> matched (take i a) (take j b) \<le> length (take j b)"
      using "1.IH"(1) [OF m [symmetric] refl False] .
    have r: "matched (drop (i + k) a) (drop (j + k) b) \<le> length (drop (i + k) a) \<and>
             matched (drop (i + k) a) (drop (j + k) b) \<le> length (drop (j + k) b)"
      using "1.IH"(2) [OF m [symmetric] refl False] .
    have e: "matched a b = matched (take i a) (take j b) + k + matched (drop (i + k) a) (drop (j + k) b)"
      using m False by (subst matched.simps) simp
    from l r ok show ?thesis unfolding e by simp arith
  qed
qed

lemma seq_ratio_in_unit: "ratio_in_unit seq_ratio"
proof -
  have "0 \<le> seq_ratio a b \<and> seq_ratio a b \<le> 1" for a b
  proof (cases "length a + length b = 0")
    case True
    then show ?thesis by (simp add: seq_ratio_def)
  next
    case False
    define t where "t = real (length a + length b)"
    define m where "m = real (matched a b)"
    have "2 * matched a b \<le> length a + length b" using matched_le [of a b] by arith
    then have "real (2 * matched a b) \<le> real (length a + length b)"
      by (simp only: of_nat_le_iff)
    then have le: "2 * m \<le> t" by (simp add: t_def m_def)
    have "0 < length a + length b" using False by arith
    then have pos: "0 < t" unfolding t_def by (simp only: of_nat_0_less_iff)
    have m0: "0 \<le> m" by (simp add: m_def)
    have "2 * m / t \<le> 1" using le pos by simp
    moreover have "0 \<le> 2 * m / t" using m0 pos by simp
    moreover have "seq_ratio a b = 2 * m / t" using False by (simp add: seq_ratio_def t_def m_def)
    ultimately show ?thesis by simp
  qed
  then show ?thesis by (simp add: ratio_in_unit_def)
qed

lemma foldl_longer_match_full:
  "length a \<le> k \<Longrightarrow> foldl (longer_match a b) (i, j, k) ps = (i, j, k)"
proof (induction ps)
  case Nil
  then show ?case by simp
next
  case (Cons p ps)
  have "common_prefix (drop (fst p) a) (drop (snd p) b) \<le> length a"
    using common_prefix_le1 [of "drop (fst p) a" "drop (snd p) b"] by simp
  with Cons.prems have "longer_match a b (i, j, k) p = (i, j, k)"
    by (simp add: longer_match_def)
  with Cons show ?case by simp
qed

lemma find_longest_match_same: "a \<noteq> [] \<Longrightarrow> find_longest_match a a = (0, 0, length a)"
proof -
  assume ne: "a \<noteq> []"
  then have u: "[0..<length a] = 0 # [1..<length a]" by (simp add: upt_conv_Cons)
  have s: "longer_match a a (0, 0, 0) (0, 0) = (0, 0, length a)"
    using ne by (simp add: longer_match_def common_prefix_same)
  show ?thesis
    unfolding find_longest_match_def u by (simp add: s foldl_longer_match_full)
qed

lemma matched_same: "matched a a = length a"
proof (cases "a = []")
  case True
  then show ?thesis by (subst matched.simps) (simp add: find_longest_match_def)
next
  case False
  have e: "matched ([]::'a list) [] = 0" by (subst matched.simps) (simp add: find_longest_match_def)
  show ?thesis using False by (subst matched.simps) (simp add: find_longest_match_same e)
qed

lemma seq_ratio_same: "seq_ratio a a = 1"
  by (simp add: seq_ratio_def matched_same)

section \<open>utils: phone normalisation\<close>

text \<open>
  What \<open>logger.warning\<close> writes is part of the result of the model, as a list of events.
\<close>

datatype log_event =
    PhoneTooLong nat string
  | InvalidPhone string nat

definition normalize_phone :: "string \<Rightarrow> string \<Rightarrow> string option \<times> log_event list" where
  \<comment> \<open>\<open>phone\<close> is the raw string; \<open>None\<close> and the empty string are both falsy and read as \<open>[]\<close>\<close>
  "normalize_phone phone default_area_code =
     (if phone = [] then (None, [])
      else
        let digits = filter is_digit phone in
        if length digits = 10 then (Some (''+1'' @ digits), [])
        else if length digits = 11 \<and> take 1 digits = ''1'' then (Some (''+'' @ digits), [])
        else if length digits = 7 then (Some (''+1'' @ default_area_code @ digits), [])
        else if length digits > 11 then
          (let last_10 = drop (length digits - 10) digits
           in (Some (''+1'' @ last_10), [PhoneTooLong (length digits) last_10]))
        else (None, [InvalidPhone phone (length digits)]))"

section \<open>utils: address similarity\<close>

definition address_fields :: "string list" where
  "address_fields = [''street'', ''city'', ''state'', ''zip'']"

definition weights :: "(string \<times> real) list" where
  "weights = [(''zip'', 0.4), (''street'', 0.3), (''city'', 0.2), (''state'', 0.1)]"

definition weight :: "string \<Rightarrow> real" where
  \<comment> \<open>\<open>weights[field]\<close>; the loop only reads the four keys of the table\<close>
  "weight f = (case map_of weights f of Some w \<Rightarrow> w | None \<Rightarrow> 0)"

definition field_val :: "pydict \<Rightarrow> string \<Rightarrow> string" where
  \<comment> \<open>\<open>(addr.get(field) or "").lower().strip()\<close>\<close>
  "field_val addr f = strip (lower (get_or_empty addr f))"

definition comparable :: "pydict \<Rightarrow> pydict \<Rightarrow> string \<Rightarrow> bool" where
  "comparable addr1 addr2 f = (field_val addr1 f \<noteq> [] \<and> field_val addr2 f \<noteq> [])"

definition compare_addresses :: "(string \<Rightarrow> string \<Rightarrow> real) \<Rightarrow> pydict \<Rightarrow> pydict \<Rightarrow> real" where
  "compare_addresses sm addr1 addr2 =
     (if addr1 = [] \<or> addr2 = [] then 0
      else
        let scores = map (\<lambda>f. if field_val addr1 f = field_val addr2 f then 1
                                else sm (field_val addr1 f) (field_val addr2 f))
                         (filter (comparable addr1 addr2) address_fields)
        in if scores = [] then 0
        else
          let weighted_scores =
                map (\<lambda>f. sm (field_val addr1 f) (field_val addr2 f) * weight f)
                    (filter (comparable addr1 addr2) address_fields)
          in if weighted_scores = [] then 0
          else sum_list weighted_scores / sum_list (map snd weights))"




section \<open>The directory and its records\<close>

text \<open>
  A field of a JSON object of the directory: missing, \<open>null\<close>, or a string.
\<close>

datatype jfield = Absent | JNull | JStr string

definition or_empty :: "jfield \<Rightarrow> string" where
  \<comment> \<open>\<open>d.get(k) or ""\<close>\<close>
  "or_empty f = (case f of JStr s \<Rightarrow> s | _ \<Rightarrow> '''')"

definition fmt_default_empty :: "jfield \<Rightarrow> string" where
  \<comment> \<open>\<open>d.get(k, '')\<close> inside an f-string: \<open>null\<close> is printed as \<open>None\<close>\<close>
  "fmt_default_empty f = (case f of Absent \<Rightarrow> '''' | JNull \<Rightarrow> ''None'' | JStr s \<Rightarrow> s)"

record customer =
  cust_id :: jfield
  first_name :: jfield
  last_name :: jfield
  mobile_number :: jfield
  home_number :: jfield
  email :: jfield
  addresses :: "pydict list"

text \<open>
  Exceptions are values. \<open>exn_str\<close> is Python's \<open>str(e)\<close>: for a \<open>KeyError\<close> the
  quoted key, for any other fault its message.
\<close>

datatype exn = KeyError string | IndexError | Fault string

definition exn_str :: "exn \<Rightarrow> string" where
  "exn_str e = (case e of KeyError k \<Rightarrow> [CHR 0x27] @ k @ [CHR 0x27]
                        | IndexError \<Rightarrow> ''list index out of range''
                        | Fault m \<Rightarrow> m)"

section \<open>customer\_matcher\<close>

datatype match_kind = Exact | Partial | NoMatch

datatype warning = PartialMatchWarning "string list" | DuplicateReviewWarning

record match_result =
  match_type :: match_kind
  confidence :: real
  customer_id :: "string option"
  customer_data :: "customer option"
  warnings :: "warning list"
  should_create_new :: bool

definition subscript_id :: "customer \<Rightarrow> exn + string option" where
  \<comment> \<open>\<open>c["id"]\<close>\<close>
  "subscript_id c = (case cust_id c of Absent \<Rightarrow> Inl (KeyError ''id'')
                                     | JNull \<Rightarrow> Inr None
                                     | JStr s \<Rightarrow> Inr (Some s))"

definition find_exact_matches :: "customer list \<Rightarrow> customer list \<Rightarrow> exn + customer list" where
  "find_exact_matches phone_matches email_matches =
     (if phone_matches = [] \<or> email_matches = [] then Inr []
      else if list_ex (\<lambda>c. cust_id c = Absent) phone_matches then Inl (KeyError ''id'')
      else if list_ex (\<lambda>c. cust_id c = Absent) email_matches then Inl (KeyError ''id'')
      else Inr (filter (\<lambda>c. cust_id c \<in> set (map cust_id phone_matches)) email_matches))"

fun deduplicate_customers :: "string list \<Rightarrow> customer list \<Rightarrow> customer list" where
  \<comment> \<open>the first argument is the set \<open>seen\<close>, empty at the call\<close>
  "deduplicate_customers seen [] = []"
| "deduplicate_customers seen (c # cs) =
     (if or_empty (cust_id c) \<noteq> [] \<and> or_empty (cust_id c) \<notin> set seen
      then c # deduplicate_customers (or_empty (cust_id c) # seen) cs
      else deduplicate_customers seen cs)"

definition full_name :: "customer \<Rightarrow> string" where
  "full_name c = strip (fmt_default_empty (first_name c) @ '' '' @ fmt_default_empty (last_name c))"

definition candidate_score ::
  "(string \<Rightarrow> string \<Rightarrow> real) \<Rightarrow> string option \<Rightarrow> pydict \<Rightarrow> customer \<Rightarrow> real" where
  "candidate_score sm name address candidate =
     (let score0 = (if truthy name \<and> full_name candidate \<noteq> []
                    then sm (lower (the name)) (lower (full_name candidate)) * 0.5 else 0)
      in if address \<noteq> [] \<and> addresses candidate \<noteq> []
         then foldl (\<lambda>score cand_addr.
                       max score (score + compare_addresses sm address cand_addr * 0.5))
                    score0 (addresses candidate)
         else score0)"

definition select_best_match ::
  "(string \<Rightarrow> string \<Rightarrow> real) \<Rightarrow> customer list \<Rightarrow> string option \<Rightarrow> pydict \<Rightarrow> exn + customer" where
  "select_best_match sm candidates name address =
     (case candidates of
        [] \<Rightarrow> Inl IndexError
      | [c] \<Rightarrow> Inr c
      | _ \<Rightarrow> Inr (snd (hd (sort_key (\<lambda>sc. - fst sc)
                              (map (\<lambda>c. (candidate_score sm name address c, c)) candidates)))))"

definition customer_has_phone :: "customer \<Rightarrow> string \<Rightarrow> bool" where
  "customer_has_phone c phone =
     (let raw = (if or_empty (mobile_number c) \<noteq> [] then or_empty (mobile_number c)
                 else or_empty (home_number c));
          customer_phone = fst (normalize_phone raw ''415'')
      in if truthy customer_phone then customer_phone = Some phone else False)"

definition customer_has_email :: "customer \<Rightarrow> string \<Rightarrow> bool" where
  "customer_has_email c em =
     (let customer_email = strip (lower (or_empty (email c)))
      in if customer_email \<noteq> [] then customer_email = strip (lower em) else False)"

definition calculate_confidence ::
  "(string \<Rightarrow> string \<Rightarrow> real) \<Rightarrow> customer \<Rightarrow> string option \<Rightarrow> string option \<Rightarrow> string option \<Rightarrow> real" where
  "calculate_confidence sm c phone em name =
     (if truthy phone \<and> customer_has_phone c (the phone) then 0.4 else 0)
   + (if truthy em \<and> customer_has_email c (the em) then 0.4 else 0)
   + (if truthy name \<and> full_name c \<noteq> []
      then sm (lower (the name)) (lower (full_name c)) * 0.2 else 0)"

text \<open>
  The directory is a stub: every operation maps its request to a response or raises. The
  requests made are recorded, in order, beside the result of every computation that
  reaches the directory.
\<close>

record customer_payload =
  cp_first_name :: string
  cp_last_name :: string
  cp_notifications_enabled :: bool
  cp_email :: "string option"
  cp_mobile_number :: "string option"
  cp_lead_source :: "string option"
  cp_addresses :: "pydict list option"
  cp_tags :: "string list option"

record note_inputs =
  n_customer_type :: string
  n_preferred_contact :: string
  n_sms_consent :: "bool option"
  n_service_needed :: string
  n_service_details :: "string list"
  n_service_request_details :: string
  n_file_attachments :: "string list"
  n_match_type :: match_kind
  n_confidence :: real
  n_warnings :: "warning list"

record line_item =
  li_name :: string
  li_kind :: string
  li_description :: "string option"

record lead_payload =
  lp_customer_id :: "string option"
  lp_job_type :: string
  lp_assigned_employee_id :: "string option"
  lp_address_id :: "string option"
  lp_address :: "pydict option"
  lp_tags :: "string list option"
  lp_lead_source :: "string option"
  lp_line_items :: "line_item list option"
  lp_note :: "note_inputs option"

datatype call =
    SearchCustomers string
  | CreateCustomer customer_payload
  | AddCustomerAddress "string option" pydict
  | GetCustomerAddresses "string option"
  | GetAddressById "string option" string
  | CreateLead lead_payload

record directory =
  search_customers :: "string \<Rightarrow> exn + customer list"
  create_customer :: "customer_payload \<Rightarrow> exn + pydict option"
  add_customer_address :: "string option \<Rightarrow> pydict \<Rightarrow> exn + pydict option"
  get_customer_addresses :: "string option \<Rightarrow> exn + pydict list"
  get_address_by_id :: "string option \<Rightarrow> string \<Rightarrow> exn + pydict option"
  create_lead_op :: "lead_payload \<Rightarrow> exn + pydict option"

type_synonym 'a run = "(exn + 'a) \<times> call list"

definition ret :: "'a \<Rightarrow> 'a run" where
  "ret x = (Inr x, [])"

definition lift :: "exn + 'a \<Rightarrow> 'a run" where
  "lift r = (r, [])"

definition request :: "call \<Rightarrow> exn + 'a \<Rightarrow> 'a run" where
  \<comment> \<open>one request to the directory, recorded with its outcome\<close>
  "request c r = (r, [c])"

definition bind :: "'a run \<Rightarrow> ('a \<Rightarrow> 'b run) \<Rightarrow> 'b run" where
  "bind m f = (case m of
                 (Inl e, cs) \<Rightarrow> (Inl e, cs)
               | (Inr x, cs) \<Rightarrow> (case f x of (r, cs') \<Rightarrow> (r, cs @ cs')))"

definition find_matching_customer ::
  "(string \<Rightarrow> string \<Rightarrow> real) \<Rightarrow> directory \<Rightarrow> string option \<Rightarrow> string option \<Rightarrow> string option
     \<Rightarrow> pydict \<Rightarrow> bool \<Rightarrow> match_result run" where
  "find_matching_customer sm d phone em name address is_existing_customer =
     bind (if truthy phone
           then request (SearchCustomers (the phone)) (search_customers d (the phone))
           else ret []) (\<lambda>phone_matches.
     bind (if truthy em
           then request (SearchCustomers (the em)) (search_customers d (the em))
           else ret []) (\<lambda>email_matches.
     bind (lift (find_exact_matches phone_matches email_matches)) (\<lambda>exact_matches.
       if exact_matches \<noteq> [] then
         bind (lift (select_best_match sm exact_matches name address)) (\<lambda>best_match.
         bind (lift (subscript_id best_match)) (\<lambda>best_id.
           ret \<lparr>match_type = Exact, confidence = 1, customer_id = best_id,
                customer_data = Some best_match, warnings = [], should_create_new = False\<rparr>))
       else
         let all_matches = deduplicate_customers [] (phone_matches @ email_matches) in
         if all_matches \<noteq> [] then
           bind (lift (select_best_match sm all_matches name address)) (\<lambda>best_match.
             let conf = calculate_confidence sm best_match phone em name;
                 matched_fields =
                   (if truthy phone \<and> customer_has_phone best_match (the phone)
                    then [''phone''] else [])
                   @ (if truthy em \<and> customer_has_email best_match (the em)
                      then [''email''] else []);
                 ws = [PartialMatchWarning matched_fields]
             in if is_existing_customer then
                  bind (lift (subscript_id best_match)) (\<lambda>best_id.
                    ret \<lparr>match_type = Partial, confidence = conf, customer_id = best_id,
                         customer_data = Some best_match, warnings = ws,
                         should_create_new = False\<rparr>)
                else
                  ret \<lparr>match_type = Partial, confidence = conf, customer_id = None,
                       customer_data = Some best_match,
                       warnings = ws @ [DuplicateReviewWarning],
                       should_create_new = True\<rparr>)
         else
           ret \<lparr>match_type = NoMatch, confidence = 0, customer_id = None,
                customer_data = None, warnings = [], should_create_new = True\<rparr>)))"

definition should_create_new_address ::
  "(string \<Rightarrow> string \<Rightarrow> real) \<Rightarrow> customer \<Rightarrow> pydict \<Rightarrow> bool" where
  "should_create_new_address sm c new_address =
     (if new_address = [] \<or> \<not> any_values new_address then False
      else if addresses c = [] then True
      else \<not> list_ex (\<lambda>existing_addr. compare_addresses sm new_address existing_addr > 0.8)
                     (addresses c))"

text \<open>Concrete directory contents used to run the matcher.\<close>

definition cust1 :: customer where
  "cust1 = \<lparr>cust_id = JStr ''C1'', first_name = JStr ''Sarah'', last_name = JStr ''Lee'',
            mobile_number = JStr ''(415) 555-1234'', home_number = Absent,
            email = JStr ''sarah@test.com'', addresses = []\<rparr>"

definition stub_phone_only :: directory where
  "stub_phone_only =
     \<lparr>search_customers = (\<lambda>q. if q = ''+14155551234'' then Inr [cust1] else Inr []),
      create_customer = (\<lambda>p. Inr None),
      add_customer_address = (\<lambda>c a. Inr None),
      get_customer_addresses = (\<lambda>c. Inr []),
      get_address_by_id = (\<lambda>c a. Inr None),
      create_lead_op = (\<lambda>p. Inr None)\<rparr>"

definition stub_both :: directory where
  "stub_both = stub_phone_only\<lparr>search_customers :=
     (\<lambda>q. if q = ''+14155551234'' \<or> q = ''sarah@test.com'' then Inr [cust1] else Inr [])\<rparr>"

definition stub_empty :: directory where
  "stub_empty = stub_phone_only\<lparr>search_customers := (\<lambda>q. Inr [])\<rparr>"

text \<open>The three shapes a match result can take.\<close>

definition result_shape ::
  "(string \<Rightarrow> string \<Rightarrow> real) \<Rightarrow> string option \<Rightarrow> string option \<Rightarrow> string option \<Rightarrow> match_result \<Rightarrow> bool" where
  "result_shape sm phone em name r =
     (case match_type r of
        Exact \<Rightarrow> confidence r = 1 \<and> \<not> should_create_new r
      | Partial \<Rightarrow> customer_data r \<noteq> None
          \<and> confidence r = calculate_confidence sm (the (customer_data r)) phone em name
      | NoMatch \<Rightarrow> confidence r = 0 \<and> customer_id r = None \<and> should_create_new r)"

text \<open>
  Candidates and an input address on which the scoring of \<open>select_best_match\<close> is run:
  \<open>cand_two\<close> has two known addresses that each share street and postal code with the
  input, \<open>cand_one\<close> has one known address equal to the input.
\<close>

definition in_addr :: pydict where
  "in_addr = [(''street'', Some ''12 Oak St''), (''city'', Some ''Oakland''),
              (''state'', Some ''CA''), (''zip'', Some ''94601'')]"

definition part_addr :: pydict where
  "part_addr = [(''street'', Some ''12 Oak St''), (''city'', None),
                (''state'', None), (''zip'', Some ''94601'')]"

definition cand_one :: customer where
  "cand_one = \<lparr>cust_id = JStr ''A1'', first_name = JStr ''Ann'', last_name = JStr ''Roe'',
               mobile_number = Absent, home_number = Absent, email = Absent,
               addresses = [in_addr]\<rparr>"

definition cand_two :: customer where
  "cand_two = \<lparr>cust_id = JStr ''B2'', first_name = JStr ''Bob'', last_name = JStr ''Poe'',
               mobile_number = Absent, home_number = Absent, email = Absent,
               addresses = [part_addr, part_addr]\<rparr>"

text \<open>
  The address term of the candidate score as the specification words it: half the largest
  similarity among the candidate's known addresses.
\<close>

definition spec_address_term :: "(string \<Rightarrow> string \<Rightarrow> real) \<Rightarrow> pydict \<Rightarrow> customer \<Rightarrow> real" where
  "spec_address_term sm address candidate =
     0.5 * Max (set (map (compare_addresses sm address) (addresses candidate)))"

section \<open>utils: names, free-text addresses, sanitising\<close>

fun split_acc :: "string \<Rightarrow> string \<Rightarrow> string list" where
  \<comment> \<open>\<open>str.split()\<close>: the maximal runs of non-whitespace; the first argument is the run so far\<close>
  "split_acc cur [] = (if cur = [] then [] else [cur])"
| "split_acc cur (c # cs) =
     (if is_space c then (if cur = [] then split_acc [] cs else cur # split_acc [] cs)
      else split_acc (cur @ [c]) cs)"

fun split_on :: "char \<Rightarrow> string \<Rightarrow> string \<Rightarrow> string list" where
  \<comment> \<open>\<open>str.split(sep)\<close> for a one-character separator\<close>
  "split_on sep cur [] = [cur]"
| "split_on sep cur (c # cs) =
     (if c = sep then cur # split_on sep [] cs else split_on sep (cur @ [c]) cs)"

fun join :: "string \<Rightarrow> string list \<Rightarrow> string" where
  "join sep [] = []"
| "join sep [x] = x"
| "join sep (x # y # ys) = x @ sep @ join sep (y # ys)"

fun starts_with :: "string \<Rightarrow> string \<Rightarrow> bool" where
  "starts_with [] s = True"
| "starts_with (p # ps) [] = False"
| "starts_with (p # ps) (c # cs) = (p = c \<and> starts_with ps cs)"

fun contains :: "string \<Rightarrow> string \<Rightarrow> bool" where
  \<comment> \<open>\<open>sub in s\<close>\<close>
  "contains sub [] = (sub = [])"
| "contains sub (c # cs) = (starts_with sub (c # cs) \<or> contains sub cs)"

definition sanitize_string :: "jfield \<Rightarrow> string" where
  "sanitize_string s = (if or_empty s = [] then [] else strip (join '' '' (split_acc [] (or_empty s))))"

definition parse_name :: "string \<Rightarrow> string \<times> string" where
  "parse_name full =
     (if full = [] then ([], [])
      else case split_acc [] (strip full) of
             [] \<Rightarrow> ([], [])
           | [a] \<Rightarrow> (a, [])
           | [a, b] \<Rightarrow> (a, b)
           | parts \<Rightarrow> (join '' '' (butlast parts), last parts))"

text \<open>
  The regular-expression engine is the standard library's. \<open>parse_address\<close> takes the
  outcome of each of its four patterns as a parameter: the groups of a full match of the
  first and of the second pattern, and the matched text and start offset of the postal-code
  search and of the state search.
\<close>

record regex =
  match_pattern1 :: "string \<Rightarrow> (string \<times> string \<times> string \<times> string) option"
  match_pattern2 :: "string \<Rightarrow> (string \<times> string \<times> string \<times> string) option"
  search_zip :: "string \<Rightarrow> (string \<times> nat) option"
  search_state :: "string \<Rightarrow> (string \<times> nat) option"

definition address_dict :: "string option \<Rightarrow> string option \<Rightarrow> string option \<Rightarrow> string option \<Rightarrow> pydict" where
  "address_dict st ci sa zi = [(''street'', st), (''city'', ci), (''state'', sa), (''zip'', zi)]"

definition parse_address :: "regex \<Rightarrow> string \<Rightarrow> pydict" where
  "parse_address rx address_string0 =
     (if address_string0 = [] then address_dict None None None None
      else
        let address_string = strip address_string0 in
        case match_pattern1 rx address_string of
          Some (g1, g2, g3, g4) \<Rightarrow>
            address_dict (Some (strip g1)) (Some (strip g2)) (Some (strip g3)) (Some (strip g4))
        | None \<Rightarrow>
        (case match_pattern2 rx address_string of
          Some (g1, g2, g3, g4) \<Rightarrow>
            address_dict (Some (strip g1)) (Some (strip g2)) (Some (strip g3)) (Some (strip g4))
        | None \<Rightarrow>
          let result =
            (case search_zip rx address_string of
               None \<Rightarrow> address_dict None None None None
             | Some (z, zstart) \<Rightarrow>
                 let before_zip = strip (take zstart address_string) in
                 (case search_state rx before_zip of
                    None \<Rightarrow> address_dict None None None (Some z)
                  | Some (s, sstart) \<Rightarrow>
                      let before_state = strip (take sstart before_zip);
                          parts = map strip (split_on CHR '','' [] before_state)
                      in if length parts \<ge> 2
                         then address_dict (Some (parts ! 0)) (Some (parts ! 1)) (Some s) (Some z)
                         else address_dict (Some (parts ! 0)) None (Some s) (Some z)))
          in if \<not> any_values result
             then address_dict (Some address_string) None None None
             else result))"

section \<open>config\<close>

record config =
  HCP_LEAD_SOURCE :: string
  HCP_LEAD_TAG :: string
  HCP_WEBSITE_TAG :: string
  HCP_ASSIGNED_EMPLOYEE_ID :: string
  DEFAULT_AREA_CODE :: string
  DEFAULT_STATE :: string
  SERVICE_DETAIL_MAPPING :: "(string \<times> string) list"
  JOB_TYPE_MAPPING :: "(string \<times> string) list"

section \<open>lead\_creator\<close>

text \<open>
  The parsed form: a string-valued key is missing, \<open>null\<close> or a string; the consent flag and
  the two list-valued keys read as their defaults when missing.
\<close>

record form_data =
  f_phone :: jfield
  f_email :: jfield
  f_first_name :: jfield
  f_last_name :: jfield
  f_name :: jfield
  f_address :: jfield
  f_customer_type :: jfield
  f_sms_consent :: "bool option"
  f_street :: jfield
  f_street_line_2 :: jfield
  f_city :: jfield
  f_state :: jfield
  f_zip :: jfield
  f_preferred_contact :: jfield
  f_service_needed :: jfield
  f_service_details :: "string list"
  f_service_request_details :: jfield
  f_file_attachments :: "string list"

record lead_creation_result =
  success :: bool
  res_customer_id :: "string option"
  job_id :: "string option"
  message :: string
  res_warnings :: "warning list"
  error :: "string option"

definition dict_get :: "pydict \<Rightarrow> string \<Rightarrow> string option" where
  \<comment> \<open>\<open>d.get(k)\<close>\<close>
  "dict_get d k = (case map_of d k of Some v \<Rightarrow> v | None \<Rightarrow> None)"

definition to_opt :: "jfield \<Rightarrow> string option" where
  \<comment> \<open>\<open>d.get(k)\<close> on the form\<close>
  "to_opt f = (case f of JStr s \<Rightarrow> Some s | _ \<Rightarrow> None)"

definition entry_if :: "pydict \<Rightarrow> string \<Rightarrow> pydict" where
  \<comment> \<open>\<open>if a.get(k): out[k] = a[k]\<close>\<close>
  "entry_if a k = (if get_or_empty a k \<noteq> [] then [(k, Some (get_or_empty a k))] else [])"

definition country_entry :: "pydict \<Rightarrow> pydict" where
  "country_entry a =
     [(''country'', Some (if get_or_empty a ''country'' \<noteq> [] then get_or_empty a ''country''
                           else ''US''))]"

definition state_entry :: "config \<Rightarrow> pydict \<Rightarrow> pydict" where
  \<comment> \<open>\<open>out["state"] = a.get("state") or Config.DEFAULT_STATE\<close>\<close>
  "state_entry cfg a =
     [(''state'', Some (if get_or_empty a ''state'' \<noteq> [] then get_or_empty a ''state''
                         else DEFAULT_STATE cfg))]"

definition config_tags :: "config \<Rightarrow> string list option" where
  "config_tags cfg =
     (let tags = (if HCP_LEAD_TAG cfg \<noteq> [] \<and> strip (HCP_LEAD_TAG cfg) \<noteq> []
                  then [HCP_LEAD_TAG cfg] else [])
                 @ (if HCP_WEBSITE_TAG cfg \<noteq> [] \<and> strip (HCP_WEBSITE_TAG cfg) \<noteq> []
                    then [HCP_WEBSITE_TAG cfg] else [])
      in if tags \<noteq> [] then Some tags else None)"

definition nonempty_opt :: "string \<Rightarrow> string option" where
  "nonempty_opt s = (if s \<noteq> [] then Some s else None)"

definition result_id :: "pydict option \<Rightarrow> string option" where
  \<comment> \<open>\<open>result.get("id") if result else None\<close>\<close>
  "result_id result = (case result of Some r \<Rightarrow> if r \<noteq> [] then dict_get r ''id'' else None
                                   | None \<Rightarrow> None)"

definition customer_payload_of ::
  "config \<Rightarrow> jfield \<Rightarrow> jfield \<Rightarrow> string \<Rightarrow> string option \<Rightarrow> pydict \<Rightarrow> bool
     \<Rightarrow> customer_payload" where
  \<comment> \<open>\<open>customer_data\<close> as \<open>LeadCreator._create_customer\<close> builds it\<close>
  "customer_payload_of cfg fname lname em phone address sms_consent =
     \<lparr>cp_first_name = (if or_empty fname \<noteq> [] then or_empty fname else ''Unknown''),
      cp_last_name = or_empty lname,
      cp_notifications_enabled = sms_consent,
      cp_email = nonempty_opt em,
      cp_mobile_number = (if truthy phone then phone else None),
      cp_lead_source = nonempty_opt (HCP_LEAD_SOURCE cfg),
      cp_addresses =
        (if address \<noteq> [] \<and> any_values address
         then Some [entry_if address ''street'' @ entry_if address ''street_line_2''
                    @ entry_if address ''city'' @ entry_if address ''state''
                    @ entry_if address ''zip'' @ country_entry address]
         else None),
      cp_tags = config_tags cfg\<rparr>"

definition lc_create_customer ::
  "config \<Rightarrow> directory \<Rightarrow> jfield \<Rightarrow> jfield \<Rightarrow> string \<Rightarrow> string option \<Rightarrow> pydict \<Rightarrow> bool
     \<Rightarrow> string option run" where
  \<comment> \<open>\<open>LeadCreator._create_customer\<close>\<close>
  "lc_create_customer cfg d fname lname em phone address sms_consent =
     (let customer_data = customer_payload_of cfg fname lname em phone address sms_consent
      in bind (request (CreateCustomer customer_data) (create_customer d customer_data))
              (\<lambda>result. ret (result_id result)))"

definition build_address_dict :: "config \<Rightarrow> pydict \<Rightarrow> pydict option" where
  "build_address_dict cfg parsed_address =
     (if parsed_address = [] \<or> \<not> any_values parsed_address then None
      else Some (entry_if parsed_address ''street'' @ entry_if parsed_address ''street_line_2''
                 @ entry_if parsed_address ''city'' @ state_entry cfg parsed_address
                 @ entry_if parsed_address ''zip'' @ country_entry parsed_address))"

definition build_address_dict_from_api :: "pydict \<Rightarrow> pydict option" where
  "build_address_dict_from_api api_address =
     (if api_address = [] then None
      else Some (entry_if api_address ''street'' @ entry_if api_address ''street_line_2''
                 @ entry_if api_address ''city'' @ entry_if api_address ''state''
                 @ entry_if api_address ''zip'' @ country_entry api_address))"

definition existing_parsed :: "pydict \<Rightarrow> pydict" where
  "existing_parsed existing_addr =
     address_dict (dict_get existing_addr ''street'') (dict_get existing_addr ''city'')
                  (dict_get existing_addr ''state'') (dict_get existing_addr ''zip'')"

definition find_matching_address_from_list ::
  "(string \<Rightarrow> string \<Rightarrow> real) \<Rightarrow> pydict list \<Rightarrow> pydict \<Rightarrow> pydict option" where
  "find_matching_address_from_list sm addrs new_address =
     (if addrs = [] then None
      else find (\<lambda>existing_addr.
                   compare_addresses sm (existing_parsed existing_addr) new_address \<ge> 0.8)
                addrs)"

definition address_payload_of :: "config \<Rightarrow> pydict \<Rightarrow> pydict" where
  \<comment> \<open>\<open>address_data\<close> as \<open>LeadCreator._add_address_to_customer\<close> builds it\<close>
  "address_payload_of cfg address =
     [(''type'', Some ''service'')] @ entry_if address ''street''
     @ entry_if address ''street_line_2'' @ entry_if address ''city''
     @ state_entry cfg address @ entry_if address ''zip'' @ country_entry address"

definition lc_add_address_to_customer ::
  "config \<Rightarrow> directory \<Rightarrow> string option \<Rightarrow> pydict \<Rightarrow> string option run" where
  \<comment> \<open>\<open>LeadCreator._add_address_to_customer\<close>\<close>
  "lc_add_address_to_customer cfg d cid address =
     (if address = [] \<or> \<not> any_values address then ret None
      else
        let address_data = address_payload_of cfg address
        in bind (request (AddCustomerAddress cid address_data)
                         (add_customer_address d cid address_data))
                (\<lambda>result. ret (result_id result)))"

fun build_items :: "config \<Rightarrow> string \<Rightarrow> nat \<Rightarrow> string list \<Rightarrow> line_item list" where
  "build_items cfg details idx [] = []"
| "build_items cfg details idx (service_detail # rest) =
     \<lparr>li_name = (case map_of (SERVICE_DETAIL_MAPPING cfg) service_detail of
                   Some n \<Rightarrow> if n \<noteq> [] then n else service_detail
                 | None \<Rightarrow> service_detail),
      li_kind = ''labor'',
      li_description = (if idx = 0 \<and> details \<noteq> [] then Some details else None)\<rparr>
     # build_items cfg details (Suc idx) rest"

definition build_line_items :: "config \<Rightarrow> string list \<Rightarrow> string \<Rightarrow> line_item list option" where
  "build_line_items cfg service_details service_request_details =
     (if service_details = [] then None
      else Some (build_items cfg service_request_details 0 service_details))"

definition lead_payload_of ::
  "config \<Rightarrow> string option \<Rightarrow> form_data \<Rightarrow> line_item list option \<Rightarrow> note_inputs
     \<Rightarrow> string option \<Rightarrow> pydict option \<Rightarrow> lead_payload" where
  \<comment> \<open>\<open>lead_data\<close> as \<open>LeadCreator._create_lead_with_job_type\<close> builds it; the note text
      is never empty\<close>
  "lead_payload_of cfg cid fd line_items note address_id address =
     (let job_type0 = (case map_of (JOB_TYPE_MAPPING cfg) (or_empty (f_service_needed fd)) of
                         Some j \<Rightarrow> j | None \<Rightarrow> []);
          job_type = (if job_type0 = [] then ''Plumbing Demand Maintenance'' else job_type0)
      in \<lparr>lp_customer_id = cid,
          lp_job_type = job_type,
          lp_assigned_employee_id = nonempty_opt (HCP_ASSIGNED_EMPLOYEE_ID cfg),
          lp_address_id = (if truthy address_id then address_id else None),
          lp_address = (case address of Some a \<Rightarrow> if a \<noteq> [] then Some a else None
                                     | None \<Rightarrow> None),
          lp_tags = config_tags cfg,
          lp_lead_source = nonempty_opt (HCP_LEAD_SOURCE cfg),
          lp_line_items = (case line_items of Some l \<Rightarrow> if l \<noteq> [] then Some l else None
                                           | None \<Rightarrow> None),
          lp_note = Some note\<rparr>)"

definition lc_create_lead_with_job_type ::
  "config \<Rightarrow> directory \<Rightarrow> string option \<Rightarrow> form_data \<Rightarrow> line_item list option \<Rightarrow> note_inputs
     \<Rightarrow> string option \<Rightarrow> pydict option \<Rightarrow> string option run" where
  \<comment> \<open>\<open>LeadCreator._create_lead_with_job_type\<close>\<close>
  "lc_create_lead_with_job_type cfg d cid fd line_items note address_id address =
     (let lead_data = lead_payload_of cfg cid fd line_items note address_id address
      in bind (request (CreateLead lead_data) (create_lead_op d lead_data))
              (\<lambda>result. ret (result_id result)))"

definition format_lead_note :: "form_data \<Rightarrow> match_result \<Rightarrow> note_inputs" where
  \<comment> \<open>the values \<open>utils.format_lead_note\<close> reads; the layout of the text is not modelled\<close>
  "format_lead_note fd m =
     \<lparr>n_customer_type = or_empty (f_customer_type fd),
      n_preferred_contact = or_empty (f_preferred_contact fd),
      n_sms_consent = f_sms_consent fd,
      n_service_needed = or_empty (f_service_needed fd),
      n_service_details = f_service_details fd,
      n_service_request_details = or_empty (f_service_request_details fd),
      n_file_attachments = f_file_attachments fd,
      n_match_type = match_type m,
      n_confidence = confidence m,
      n_warnings = warnings m\<rparr>"

definition match_kind_str :: "match_kind \<Rightarrow> string" where
  "match_kind_str k = (case k of Exact \<Rightarrow> ''exact'' | Partial \<Rightarrow> ''partial'' | NoMatch \<Rightarrow> ''none'')"

definition form_names :: "form_data \<Rightarrow> jfield \<times> jfield \<times> jfield" where
  \<comment> \<open>\<open>first_name\<close>, \<open>last_name\<close> and \<open>name\<close> as \<open>create_lead\<close> derives them\<close>
  "form_names fd =
     (let fname = (case f_first_name fd of Absent \<Rightarrow> JStr [] | v \<Rightarrow> v);
          lname = (case f_last_name fd of Absent \<Rightarrow> JStr [] | v \<Rightarrow> v);
          name = (case f_name fd of Absent \<Rightarrow> JStr [] | v \<Rightarrow> v)
      in if or_empty name = [] \<and> (or_empty fname \<noteq> [] \<or> or_empty lname \<noteq> [])
         then (fname, lname,
               JStr (strip (fmt_default_empty fname @ '' '' @ fmt_default_empty lname)))
         else if or_empty fname = [] \<and> or_empty name \<noteq> []
         then (JStr (fst (parse_name (or_empty name))), JStr (snd (parse_name (or_empty name))),
               name)
         else (fname, lname, name))"

definition form_parsed_address :: "config \<Rightarrow> regex \<Rightarrow> form_data \<Rightarrow> pydict" where
  \<comment> \<open>\<open>parsed_address\<close> as \<open>create_lead\<close> builds it\<close>
  "form_parsed_address cfg rx fd =
     (if or_empty (f_street fd) \<noteq> [] \<or> or_empty (f_city fd) \<noteq> [] \<or> or_empty (f_zip fd) \<noteq> []
      then address_dict (to_opt (f_street fd)) (to_opt (f_city fd))
             (Some (if or_empty (f_state fd) \<noteq> [] then or_empty (f_state fd)
                    else DEFAULT_STATE cfg))
             (to_opt (f_zip fd))
      else parse_address rx (or_empty (f_address fd)))"

definition failure :: "string option \<Rightarrow> string \<Rightarrow> lead_creation_result" where
  "failure cid err = \<lparr>success = False, res_customer_id = cid, job_id = None, message = [],
                      res_warnings = [], error = Some err\<rparr>"

text \<open>
  \<open>create_lead\<close> is modelled in stages, in the order of its body: the call of the matcher
  on the normalised form (\<open>form_match\<close>), the choice of the address id for an existing
  customer (\<open>resolve_address_id\<close>), the address sent with the lead
  (\<open>resolve_lead_address\<close>), the creation of the lead (\<open>lead_stage\<close>), the body of the
  \<open>try\<close> block (\<open>create_lead_body\<close>) and the handler around it (\<open>create_lead\<close>).
\<close>

definition form_phone :: "config \<Rightarrow> form_data \<Rightarrow> string option" where
  "form_phone cfg fd = fst (normalize_phone (or_empty (f_phone fd)) (DEFAULT_AREA_CODE cfg))"

definition form_email :: "form_data \<Rightarrow> string" where
  "form_email fd = lower (sanitize_string (f_email fd))"

definition form_is_existing :: "form_data \<Rightarrow> bool" where
  "form_is_existing fd =
     (let customer_type = lower (sanitize_string (f_customer_type fd))
      in contains ''existing'' customer_type \<or> contains ''returning'' customer_type)"

definition form_match ::
  "(string \<Rightarrow> string \<Rightarrow> real) \<Rightarrow> config \<Rightarrow> regex \<Rightarrow> directory \<Rightarrow> form_data \<Rightarrow> match_result run" where
  "form_match sm cfg rx d fd =
     find_matching_customer sm d (form_phone cfg fd) (Some (form_email fd))
       (to_opt (snd (snd (form_names fd)))) (form_parsed_address cfg rx fd)
       (form_is_existing fd)"

definition resolve_address_id ::
  "(string \<Rightarrow> string \<Rightarrow> real) \<Rightarrow> directory \<Rightarrow> string option \<Rightarrow> string option \<Rightarrow> pydict
     \<Rightarrow> string option run" where
  "resolve_address_id sm d cid new_address_id parsed_address =
     (if truthy new_address_id then ret new_address_id
      else if truthy cid \<and> parsed_address \<noteq> [] then
        bind (request (GetCustomerAddresses cid) (get_customer_addresses d cid))
          (\<lambda>customer_addresses.
             if customer_addresses \<noteq> [] then
               (case find_matching_address_from_list sm customer_addresses parsed_address of
                  Some matched_address \<Rightarrow>
                    if matched_address \<noteq> [] then ret (dict_get matched_address ''id'')
                    else ret None
                | None \<Rightarrow> ret None)
             else ret None)
      else ret None)"

definition resolve_lead_address ::
  "(string \<Rightarrow> string \<Rightarrow> real) \<Rightarrow> config \<Rightarrow> directory \<Rightarrow> match_result \<Rightarrow> string option
     \<Rightarrow> string option \<Rightarrow> pydict \<Rightarrow> (string option \<times> pydict option) run" where
  "resolve_lead_address sm cfg d m cid new_address_id parsed_address =
     (if should_create_new m then ret (None, build_address_dict cfg parsed_address)
      else
        bind (resolve_address_id sm d cid new_address_id parsed_address) (\<lambda>address_id.
          if truthy address_id \<and> truthy cid then
            bind (request (GetAddressById cid (the address_id))
                          (get_address_by_id d cid (the address_id)))
              (\<lambda>full_address.
                 case full_address of
                   Some fa \<Rightarrow> if fa \<noteq> [] then ret (address_id, build_address_dict_from_api fa)
                              else ret (address_id, None)
                 | None \<Rightarrow> ret (address_id, None))
          else ret (address_id, None)))"

definition lead_stage ::
  "(string \<Rightarrow> string \<Rightarrow> real) \<Rightarrow> config \<Rightarrow> directory \<Rightarrow> form_data \<Rightarrow> pydict \<Rightarrow> match_result
     \<Rightarrow> string option \<Rightarrow> string option \<Rightarrow> lead_creation_result run" where
  "lead_stage sm cfg d fd parsed_address m cid new_address_id =
     (let line_items =
            (if f_service_details fd \<noteq> []
             then build_line_items cfg (f_service_details fd)
                    (or_empty (f_service_request_details fd))
             else None);
          note_text = format_lead_note fd m
      in bind (resolve_lead_address sm cfg d m cid new_address_id parsed_address)
           (\<lambda>(address_id, address_for_lead).
         bind (lc_create_lead_with_job_type cfg d cid fd line_items note_text address_id
                 address_for_lead)
           (\<lambda>lead_id.
              if \<not> truthy lead_id then ret (failure cid ''Failed to create lead'')
              else ret \<lparr>success = True, res_customer_id = cid, job_id = lead_id,
                        message = ''Lead created successfully (match type: ''
                                  @ match_kind_str (match_type m) @ '')'',
                        res_warnings = warnings m, error = None\<rparr>)))"

definition create_lead_body ::
  "(string \<Rightarrow> string \<Rightarrow> real) \<Rightarrow> config \<Rightarrow> regex \<Rightarrow> directory \<Rightarrow> form_data
     \<Rightarrow> lead_creation_result run" where
  "create_lead_body sm cfg rx d fd =
     (let parsed_address = form_parsed_address cfg rx fd in
      bind (form_match sm cfg rx d fd) (\<lambda>m.
        if should_create_new m then
          bind (lc_create_customer cfg d (fst (form_names fd)) (fst (snd (form_names fd)))
                  (form_email fd) (form_phone cfg fd) parsed_address
                  (case f_sms_consent fd of Some b \<Rightarrow> b | None \<Rightarrow> False))
            (\<lambda>cid.
               if \<not> truthy cid then ret (failure None ''Failed to create customer'')
               else lead_stage sm cfg d fd parsed_address m cid None)
        else
          bind (if parsed_address \<noteq> [] \<and> customer_data m \<noteq> None
                then (if should_create_new_address sm (the (customer_data m)) parsed_address
                      then lc_add_address_to_customer cfg d (customer_id m) parsed_address
                      else ret None)
                else ret None)
            (\<lambda>new_address_id.
               lead_stage sm cfg d fd parsed_address m (customer_id m) new_address_id)))"

definition create_lead ::
  "(string \<Rightarrow> string \<Rightarrow> real) \<Rightarrow> config \<Rightarrow> regex \<Rightarrow> directory \<Rightarrow> form_data
     \<Rightarrow> lead_creation_result \<times> call list" where
  \<comment> \<open>\<open>try: ... except Exception as e: return LeadCreationResult(success=False, error=str(e))\<close>\<close>
  "create_lead sm cfg rx d fd =
     (case create_lead_body sm cfg rx d fd of
        (Inl e, cs) \<Rightarrow> (failure None (exn_str e), cs)
      | (Inr r, cs) \<Rightarrow> (r, cs))"


definition other_addr :: pydict where
  "other_addr = [(''id'', Some ''adr_0''), (''street'', None), (''city'', None),
                 (''state'', None), (''zip'', Some ''10001'')]"




text \<open>
  What a theorem may assume of the directory: that a creation returns no id, and that the
  operations on addresses return without raising.
\<close>

definition no_customer_id :: "directory \<Rightarrow> bool" where
  "no_customer_id d = (\<forall>p. \<exists>r. create_customer d p = Inr r \<and> \<not> truthy (result_id r))"

definition no_lead_id :: "directory \<Rightarrow> bool" where
  "no_lead_id d = (\<forall>p. \<exists>r. create_lead_op d p = Inr r \<and> \<not> truthy (result_id r))"

definition address_ops_return :: "directory \<Rightarrow> bool" where
  "address_ops_return d =
     ((\<forall>c a. \<exists>r. add_customer_address d c a = Inr r)
    \<and> (\<forall>c. \<exists>r. get_customer_addresses d c = Inr r)
    \<and> (\<forall>c a. \<exists>r. get_address_by_id d c a = Inr r))"

definition is_create_lead :: "call \<Rightarrow> bool" where
  "is_create_lead c = (case c of CreateLead p \<Rightarrow> True | _ \<Rightarrow> False)"

definition no_lead_calls :: "'a run \<Rightarrow> bool" where
  "no_lead_calls m = (\<forall>c \<in> set (snd m). \<not> is_create_lead c)"

text \<open>A configuration, a regular-expression stub and a submitted form to run the workflow on.\<close>

definition cfg0 :: config where
  "cfg0 = \<lparr>HCP_LEAD_SOURCE = ''Website'', HCP_LEAD_TAG = [], HCP_WEBSITE_TAG = [],
            HCP_ASSIGNED_EMPLOYEE_ID = ''pro_1'', DEFAULT_AREA_CODE = ''415'',
            DEFAULT_STATE = ''CA'',
            SERVICE_DETAIL_MAPPING = [(''Water Heater'', ''Water Heater Service'')],
            JOB_TYPE_MAPPING = [(''Service or Repair'', ''Plumbing Demand Maintenance'')]\<rparr>"

definition rx0 :: regex where
  "rx0 = \<lparr>match_pattern1 = (\<lambda>s. None), match_pattern2 = (\<lambda>s. None),
           search_zip = (\<lambda>s. None), search_state = (\<lambda>s. None)\<rparr>"

definition fd0 :: form_data where
  "fd0 = \<lparr>f_phone = JStr ''(415) 555-1234'', f_email = JStr ''Sarah@Test.com'',
           f_first_name = JStr ''Sarah'', f_last_name = JStr ''Lee'', f_name = Absent,
           f_address = Absent, f_customer_type = JStr ''New Customer'',
           f_sms_consent = Some True, f_street = JStr ''12 Oak St'',
           f_street_line_2 = JStr ''Apt 4'', f_city = JStr ''Oakland'', f_state = Absent,
           f_zip = JStr ''94601'', f_preferred_contact = Absent,
           f_service_needed = JStr ''Service or Repair'', f_service_details = [''Water Heater''],
           f_service_request_details = JStr ''No hot water'', f_file_attachments = []\<rparr>"

definition stub_created :: directory where
  "stub_created = stub_empty\<lparr>create_customer := (\<lambda>p. Inr (Some [(''id'', Some ''C9'')]))\<rparr>"

text \<open>The results of the matcher on that form.\<close>

definition m_exact :: match_result where
  "m_exact = \<lparr>match_type = Exact, confidence = 1, customer_id = Some ''C1'',
              customer_data = Some cust1, warnings = [], should_create_new = False\<rparr>"

definition m_none :: match_result where
  "m_none = \<lparr>match_type = NoMatch, confidence = 0, customer_id = None,
             customer_data = None, warnings = [], should_create_new = True\<rparr>"



section \<open>Properties of the program\<close>

subsection \<open>Address similarity\<close>


lemma weights_total: "sum_list (map snd weights) = 1"
  by (simp add: weights_def)


lemma field_val_empty_dict: "field_val [] f = []"
  by (simp add: field_val_def get_or_empty_def lower_def strip_def)

lemma compare_addresses_sum:
  "compare_addresses sm a1 a2 =
     sum_list (map (\<lambda>f. sm (field_val a1 f) (field_val a2 f) * weight f)
                   (filter (comparable a1 a2) address_fields))"
proof (cases "a1 = [] \<or> a2 = []")
  case True
  then have "filter (comparable a1 a2) address_fields = []"
    by (auto simp add: comparable_def field_val_empty_dict)
  with True show ?thesis by (simp add: compare_addresses_def)
next
  case False
  then show ?thesis
    by (cases "filter (comparable a1 a2) address_fields = []")
       (simp_all add: compare_addresses_def Let_def weights_total)
qed





subsection \<open>Phone normalisation\<close>




subsection \<open>Customer matching\<close>

lemma fst_bind_Inr:
  "(fst (bind m f) = Inr y) = (\<exists>x. fst m = Inr x \<and> fst (f x) = Inr y)"
  by (auto simp: bind_def split: prod.splits sum.splits)

lemma fst_ret: "fst (ret x) = Inr x"
  by (simp add: ret_def)

lemma fst_lift: "fst (lift r) = r"
  by (simp add: lift_def)

lemma fst_request: "fst (request c r) = r"
  by (simp add: request_def)

lemma fst_if: "fst (if c then a else b) = (if c then fst a else fst b)"
  by simp

lemmas run_simps = fst_bind_Inr fst_ret fst_lift fst_request fst_if

lemma find_matching_customer_shape:
  assumes "fst (find_matching_customer sm d phone em name address ex) = Inr r"
  shows "result_shape sm phone em name r"
  using assms unfolding find_matching_customer_def Let_def
  by (auto simp: run_simps result_shape_def split: if_splits)

lemma calculate_confidence_bounds:
  assumes "ratio_in_unit sm"
  shows "0 \<le> calculate_confidence sm c phone em name \<and> calculate_confidence sm c phone em name \<le> 1"
proof -
  let ?s = "sm (lower (the name)) (lower (full_name c))"
  have s: "0 \<le> ?s" "?s \<le> 1" using assms by (simp_all add: ratio_in_unit_def)
  then have "0 \<le> ?s * 0.2" "?s * 0.2 \<le> 0.2" by simp_all
  then show ?thesis unfolding calculate_confidence_def by auto
qed

text \<open>
  Claim C4. Every match result that \<open>find_matching_customer\<close> returns satisfies both
  invariants: an exact match has confidence 1 and does not ask for a new customer; a result
  of type none has no customer id and asks for a new customer.
\<close>

theorem match_result_invariants:
  assumes "fst (find_matching_customer sm d phone em name address ex) = Inr r"
  shows "(match_type r = Exact \<longrightarrow> confidence r = 1 \<and> \<not> should_create_new r)
       \<and> (match_type r = NoMatch \<longrightarrow> customer_id r = None \<and> should_create_new r)"
  using find_matching_customer_shape [OF assms] by (auto simp: result_shape_def)

lemma run_both:
  "fst (find_matching_customer seq_ratio stub_both (Some ''+14155551234'')
          (Some ''sarah@test.com'') (Some ''Sarah Lee'') [] False)
   = Inr \<lparr>match_type = Exact, confidence = 1, customer_id = Some ''C1'',
          customer_data = Some cust1, warnings = [], should_create_new = False\<rparr>"
  by (simp add: find_matching_customer_def stub_both_def stub_phone_only_def bind_def
      request_def ret_def lift_def truthy_def find_exact_matches_def cust1_def
      select_best_match_def subscript_id_def)

lemma run_empty:
  "fst (find_matching_customer seq_ratio stub_empty (Some ''+14155551234'')
          (Some ''sarah@test.com'') (Some ''Sarah Lee'') [] False)
   = Inr \<lparr>match_type = NoMatch, confidence = 0, customer_id = None,
          customer_data = None, warnings = [], should_create_new = True\<rparr>"
  by (simp add: find_matching_customer_def stub_empty_def stub_phone_only_def bind_def
      request_def ret_def lift_def truthy_def find_exact_matches_def)

theorem match_result_invariants_witness:
  "(\<exists>r. fst (find_matching_customer seq_ratio stub_both (Some ''+14155551234'')
               (Some ''sarah@test.com'') (Some ''Sarah Lee'') [] False) = Inr r
        \<and> match_type r = Exact \<and> confidence r = 1 \<and> \<not> should_create_new r)
 \<and> (\<exists>r. fst (find_matching_customer seq_ratio stub_empty (Some ''+14155551234'')
               (Some ''sarah@test.com'') (Some ''Sarah Lee'') [] False) = Inr r
        \<and> match_type r = NoMatch \<and> customer_id r = None \<and> should_create_new r)"
  using match_result_invariants [OF run_both] match_result_invariants [OF run_empty]
  by (simp add: run_both run_empty)

text \<open>
  Claim C5. Whenever the matcher's ratio lies in the unit interval, the confidence of every
  match result that \<open>find_matching_customer\<close> returns lies in the closed interval from 0
  to 1, whichever of phone, email and name are supplied and whatever the directory returns.
\<close>

theorem confidence_in_unit_interval:
  assumes "ratio_in_unit sm"
    and "fst (find_matching_customer sm d phone em name address ex) = Inr r"
  shows "0 \<le> confidence r \<and> confidence r \<le> 1"
proof (cases "match_type r")
  case Exact
  then show ?thesis using find_matching_customer_shape [OF assms(2)]
    by (simp add: result_shape_def)
next
  case Partial
  then show ?thesis
    using find_matching_customer_shape [OF assms(2)] calculate_confidence_bounds [OF assms(1)]
    by (simp add: result_shape_def)
next
  case NoMatch
  then show ?thesis using find_matching_customer_shape [OF assms(2)]
    by (simp add: result_shape_def)
qed

lemma cust1_full_name: "lower (full_name cust1) = ''sarah lee''"
  by (simp add: full_name_def cust1_def fmt_default_empty_def strip_def is_space_def lower_def
      lower_char_def)

lemma cust1_has_phone: "customer_has_phone cust1 ''+14155551234''"
  by (simp add: customer_has_phone_def cust1_def or_empty_def normalize_phone_def is_digit_def
      truthy_def)

lemma cust1_has_email: "\<not> customer_has_email cust1 ''other@test.com''"
  by (simp add: customer_has_email_def cust1_def or_empty_def strip_def is_space_def lower_def
      lower_char_def)

lemma run_phone_only:
  "fst (find_matching_customer seq_ratio stub_phone_only (Some ''+14155551234'')
          (Some ''other@test.com'') (Some ''Sarah Lee'') [] False)
   = Inr \<lparr>match_type = Partial, confidence = 6 / 10, customer_id = None,
          customer_data = Some cust1,
          warnings = [PartialMatchWarning [''phone''], DuplicateReviewWarning],
          should_create_new = True\<rparr>"
proof -
  have n: "lower ''Sarah Lee'' = ''sarah lee''" by (simp add: lower_def lower_char_def)
  have f: "full_name cust1 \<noteq> []" using cust1_full_name by (auto simp: lower_def)
  have c: "calculate_confidence seq_ratio cust1 (Some ''+14155551234'')
             (Some ''other@test.com'') (Some ''Sarah Lee'') = 6 / 10"
    by (simp add: calculate_confidence_def truthy_def cust1_has_phone cust1_has_email f n
        cust1_full_name seq_ratio_same)
  have i: "or_empty (cust_id cust1) = ''C1''" by (simp add: cust1_def or_empty_def)
  show ?thesis
    by (simp add: find_matching_customer_def stub_phone_only_def bind_def
      request_def ret_def lift_def find_exact_matches_def i c cust1_has_phone cust1_has_email
      select_best_match_def Let_def) (simp add: truthy_def)
qed

theorem confidence_in_unit_interval_witness:
  "ratio_in_unit seq_ratio
   \<and> (\<exists>r. fst (find_matching_customer seq_ratio stub_phone_only (Some ''+14155551234'')
               (Some ''other@test.com'') (Some ''Sarah Lee'') [] False) = Inr r
          \<and> confidence r = 6 / 10 \<and> 0 \<le> confidence r \<and> confidence r \<le> 1)"
  using confidence_in_unit_interval [OF seq_ratio_in_unit run_phone_only]
  by (simp add: seq_ratio_in_unit run_phone_only)

text \<open>
  Claim C9. When the phone search returns exactly one customer, who carries an id, and the
  email search returns nothing, resolving with the existing-customer flag off returns a
  partial match that asks for a new customer, has no customer id, carries the candidate
  record for reference, and has a duplicate-review warning among its warnings.
\<close>

theorem phone_only_match_flags_duplicate:
  assumes "truthy phone"
    and "search_customers d (the phone) = Inr [c]"
    and "or_empty (cust_id c) \<noteq> []"
    and "truthy em \<longrightarrow> search_customers d (the em) = Inr []"
  shows "\<exists>r. fst (find_matching_customer sm d phone em name address False) = Inr r
           \<and> match_type r = Partial \<and> should_create_new r \<and> customer_id r = None
           \<and> customer_data r = Some c \<and> DuplicateReviewWarning \<in> set (warnings r)"
  using assms
  by (cases "truthy em")
     (simp_all add: find_matching_customer_def bind_def request_def ret_def lift_def
        find_exact_matches_def select_best_match_def Let_def)

theorem phone_only_match_flags_duplicate_witness:
  "truthy (Some ''+14155551234'')
   \<and> search_customers stub_phone_only ''+14155551234'' = Inr [cust1]
   \<and> or_empty (cust_id cust1) \<noteq> []
   \<and> search_customers stub_phone_only ''other@test.com'' = Inr []
   \<and> (\<exists>r. fst (find_matching_customer seq_ratio stub_phone_only (Some ''+14155551234'')
               (Some ''other@test.com'') (Some ''Sarah Lee'') [] False) = Inr r
          \<and> match_type r = Partial \<and> should_create_new r \<and> customer_id r = None
          \<and> customer_data r = Some cust1 \<and> DuplicateReviewWarning \<in> set (warnings r))"
proof -
  have 1: "truthy (Some ''+14155551234'')" by (simp add: truthy_def)
  have 2: "search_customers stub_phone_only (the (Some ''+14155551234'')) = Inr [cust1]"
    by (simp add: stub_phone_only_def)
  have 3: "or_empty (cust_id cust1) \<noteq> []" by (simp add: cust1_def or_empty_def)
  have 4: "truthy (Some ''other@test.com'')
           \<longrightarrow> search_customers stub_phone_only (the (Some ''other@test.com'')) = Inr []"
    by (simp add: stub_phone_only_def)
  show ?thesis
    using phone_only_match_flags_duplicate [OF 1 2 3 4, of seq_ratio "Some ''Sarah Lee''" "[]"]
      1 2 3 4
    by (simp add: truthy_def)
qed

subsection \<open>Candidate scoring\<close>

lemma in_addr_vals:
  "field_val in_addr ''street'' = ''12 oak st''" "field_val in_addr ''city'' = ''oakland''"
  "field_val in_addr ''state'' = ''ca''" "field_val in_addr ''zip'' = ''94601''"
  by (simp_all add: field_val_def get_or_empty_def in_addr_def lower_def lower_char_def
      strip_def is_space_def)

lemma part_addr_vals:
  "field_val part_addr ''street'' = ''12 oak st''" "field_val part_addr ''city'' = []"
  "field_val part_addr ''state'' = []" "field_val part_addr ''zip'' = ''94601''"
  by (simp_all add: field_val_def get_or_empty_def part_addr_def lower_def lower_char_def
      strip_def is_space_def)

lemma sim_in_in: "compare_addresses seq_ratio in_addr in_addr = 1"
  by (simp add: compare_addresses_sum comparable_def address_fields_def in_addr_vals
      seq_ratio_same weight_def weights_def)

lemma sim_in_part: "compare_addresses seq_ratio in_addr part_addr = 7 / 10"
  by (simp add: compare_addresses_sum comparable_def address_fields_def in_addr_vals
      part_addr_vals seq_ratio_same weight_def weights_def)

lemma score_cand_one: "candidate_score seq_ratio None in_addr cand_one = 1 / 2"
  by (simp add: candidate_score_def truthy_def cand_one_def sim_in_in)
     (simp add: in_addr_def)

lemma score_cand_two: "candidate_score seq_ratio None in_addr cand_two = 7 / 10"
  by (simp add: candidate_score_def truthy_def cand_two_def sim_in_part)
     (simp add: in_addr_def part_addr_def)

text \<open>
  Claim C2, evaluated on the program. With an input address and no name, the candidate
  \<open>cand_two\<close> has two known addresses of similarity 0.7 each: the program scores it
  0.7, half the sum of the two similarities, where half the largest similarity added once
  gives 0.35. The candidate \<open>cand_one\<close> has one known address of similarity 1 and
  scores 0.5 either way, so the program selects \<open>cand_two\<close>.
\<close>

theorem candidate_score_adds_every_address:
  "candidate_score seq_ratio None in_addr cand_two = 7 / 10
   \<and> candidate_score seq_ratio None [] cand_two + spec_address_term seq_ratio in_addr cand_two
       = 7 / 20
   \<and> candidate_score seq_ratio None in_addr cand_one = 1 / 2
   \<and> candidate_score seq_ratio None [] cand_one + spec_address_term seq_ratio in_addr cand_one
       = 1 / 2
   \<and> select_best_match seq_ratio [cand_one, cand_two] None in_addr = Inr cand_two"
proof -
  have a: "candidate_score seq_ratio None [] cand_two = 0"
          "candidate_score seq_ratio None [] cand_one = 0"
    by (simp_all add: candidate_score_def truthy_def)
  have b: "spec_address_term seq_ratio in_addr cand_two = 7 / 20"
    by (simp add: spec_address_term_def cand_two_def sim_in_part)
  have c: "spec_address_term seq_ratio in_addr cand_one = 1 / 2"
    by (simp add: spec_address_term_def cand_one_def sim_in_in)
  have d: "select_best_match seq_ratio [cand_one, cand_two] None in_addr = Inr cand_two"
    by (simp add: select_best_match_def score_cand_one score_cand_two)
  show ?thesis by (simp add: a b c d score_cand_one score_cand_two)
qed

subsection \<open>Address reconciliation\<close>






lemma other_vals:
  "field_val (existing_parsed other_addr) ''street'' = []"
  "field_val (existing_parsed other_addr) ''city'' = []"
  "field_val (existing_parsed other_addr) ''state'' = []"
  "field_val (existing_parsed other_addr) ''zip'' = ''10001''"
  "field_val other_addr ''street'' = []"
  "field_val other_addr ''city'' = []"
  "field_val other_addr ''state'' = []"
  "field_val other_addr ''zip'' = ''10001''"
  by (simp_all add: field_val_def get_or_empty_def other_addr_def existing_parsed_def
      address_dict_def dict_get_def lower_def lower_char_def strip_def is_space_def)

lemma ratio_zip: "seq_ratio ''94601'' ''10001'' = 4 / 10" "seq_ratio ''10001'' ''94601'' = 4 / 10"
  by code_simp+




lemma sim_in_other: "compare_addresses seq_ratio in_addr other_addr = 16 / 100"
  by (simp add: compare_addresses_sum comparable_def address_fields_def in_addr_vals
      other_vals ratio_zip weight_def weights_def)



subsection \<open>The lead workflow\<close>

lemma fst_bind: "fst m = Inr x \<Longrightarrow> fst (bind m f) = fst (f x)"
  by (cases m) (auto simp: bind_def split: prod.splits)

lemma snd_bind: "fst m = Inr x \<Longrightarrow> snd (bind m f) = snd m @ snd (f x)"
  by (cases m) (auto simp: bind_def split: prod.splits)


lemma snd_bind_Inl: "fst m = Inl e \<Longrightarrow> snd (bind m f) = snd m"
  by (cases m) (auto simp: bind_def)

lemma nl_bind: "no_lead_calls m \<Longrightarrow> (\<And>x. no_lead_calls (f x)) \<Longrightarrow> no_lead_calls (bind m f)"
proof (cases "fst m")
  case (Inl e)
  assume "no_lead_calls m"
  then show ?thesis by (simp add: no_lead_calls_def snd_bind_Inl [OF Inl])
next
  case (Inr x)
  assume "no_lead_calls m" "\<And>x. no_lead_calls (f x)"
  then show ?thesis by (auto simp add: no_lead_calls_def snd_bind [OF Inr])
qed

lemma nl_ret: "no_lead_calls (ret x)"
  by (simp add: no_lead_calls_def ret_def)

lemma nl_lift: "no_lead_calls (lift r)"
  by (simp add: no_lead_calls_def lift_def)

lemma nl_request: "\<not> is_create_lead c \<Longrightarrow> no_lead_calls (request c r)"
  by (simp add: no_lead_calls_def request_def)

lemma nl_if: "no_lead_calls a \<Longrightarrow> no_lead_calls b \<Longrightarrow> no_lead_calls (if c then a else b)"
  by simp

lemma matcher_calls: "no_lead_calls (find_matching_customer sm d phone em name address ex)"
  unfolding find_matching_customer_def Let_def
  by (intro nl_bind nl_if nl_ret nl_lift nl_request) (simp_all add: is_create_lead_def)

lemma create_customer_calls:
  "no_lead_calls (lc_create_customer cfg d fnm lnm em phone address sms)"
  unfolding lc_create_customer_def Let_def
  by (intro nl_bind nl_if nl_ret nl_lift nl_request) (simp_all add: is_create_lead_def)

lemma create_customer_no_id:
  assumes "no_customer_id d"
  shows "\<exists>c. fst (lc_create_customer cfg d fnm lnm em phone address sms) = Inr c \<and> \<not> truthy c"
proof -
  from assms obtain r where
    r: "create_customer d (customer_payload_of cfg fnm lnm em phone address sms) = Inr r"
       "\<not> truthy (result_id r)"
    unfolding no_customer_id_def by blast
  then show ?thesis
    by (simp add: lc_create_customer_def Let_def bind_def request_def ret_def)
qed

lemma create_customer_with_id:
  assumes "\<forall>p. \<exists>r. create_customer d p = Inr r \<and> result_id r = Some cid"
  shows "fst (lc_create_customer cfg d fnm lnm em phone address sms) = Inr (Some cid)"
proof -
  from assms obtain r where
    r: "create_customer d (customer_payload_of cfg fnm lnm em phone address sms) = Inr r"
       "result_id r = Some cid"
    by blast
  then show ?thesis
    by (simp add: lc_create_customer_def Let_def bind_def request_def ret_def)
qed

lemma create_lead_no_id:
  assumes "no_lead_id d"
  shows "\<exists>c. fst (lc_create_lead_with_job_type cfg d cid fd items note aid addr) = Inr c
             \<and> \<not> truthy c"
proof -
  from assms obtain r where
    r: "create_lead_op d (lead_payload_of cfg cid fd items note aid addr) = Inr r"
       "\<not> truthy (result_id r)"
    unfolding no_lead_id_def by blast
  then show ?thesis
    by (simp add: lc_create_lead_with_job_type_def Let_def bind_def request_def ret_def)
qed

lemma add_address_returns:
  assumes "address_ops_return d"
  shows "\<exists>x. fst (lc_add_address_to_customer cfg d cid address) = Inr x"
proof -
  from assms obtain r where
    r: "add_customer_address d cid (address_payload_of cfg address) = Inr r"
    unfolding address_ops_return_def by blast
  then show ?thesis
    by (simp add: lc_add_address_to_customer_def Let_def bind_def request_def ret_def)
qed

lemma resolve_address_id_returns:
  assumes "address_ops_return d"
  shows "\<exists>x. fst (resolve_address_id sm d cid new_id parsed) = Inr x"
proof -
  from assms obtain r where r: "get_customer_addresses d cid = Inr r"
    unfolding address_ops_return_def by blast
  then show ?thesis
    by (simp add: resolve_address_id_def bind_def request_def ret_def split: option.splits)
qed

lemma resolve_lead_address_returns:
  assumes "address_ops_return d"
  shows "\<exists>x. fst (resolve_lead_address sm cfg d m cid new_id parsed) = Inr x"
proof (cases "should_create_new m")
  case True
  then show ?thesis by (simp add: resolve_lead_address_def ret_def)
next
  case False
  from resolve_address_id_returns [OF assms] obtain aid where
    a: "fst (resolve_address_id sm d cid new_id parsed) = Inr aid" by blast
  have e: "fst (resolve_lead_address sm cfg d m cid new_id parsed) =
           fst (if truthy aid \<and> truthy cid then
            bind (request (GetAddressById cid (the aid))
                          (get_address_by_id d cid (the aid)))
              (\<lambda>full_address.
                 case full_address of
                   Some fa \<Rightarrow> if fa \<noteq> [] then ret (aid, build_address_dict_from_api fa)
                              else ret (aid, None)
                 | None \<Rightarrow> ret (aid, None))
          else ret (aid, None))"
    using False by (simp add: resolve_lead_address_def fst_bind [OF a])
  show ?thesis
  proof (cases "truthy aid \<and> truthy cid")
    case True
    from assms obtain r where g: "get_address_by_id d cid (the aid) = Inr r"
      unfolding address_ops_return_def by blast
    have q: "fst (request (GetAddressById cid (the aid)) (get_address_by_id d cid (the aid)))
               = Inr r"
      by (simp add: request_def g)
    show ?thesis
      unfolding e using True
      by (simp add: fst_bind [OF q] ret_def split: option.splits)
  next
    case F: False
    then show ?thesis unfolding e by (auto simp add: ret_def)
  qed
qed

lemma lead_stage_no_id:
  assumes "address_ops_return d \<or> should_create_new m" and "no_lead_id d"
  shows "fst (lead_stage sm cfg d fd parsed m cid new_id) = Inr (failure cid ''Failed to create lead'')"
proof -
  have "\<exists>x. fst (resolve_lead_address sm cfg d m cid new_id parsed) = Inr x"
  proof (cases "should_create_new m")
    case True
    then show ?thesis by (simp add: resolve_lead_address_def ret_def)
  next
    case False
    with assms(1) show ?thesis using resolve_lead_address_returns by blast
  qed
  then obtain aid addr where
    r: "fst (resolve_lead_address sm cfg d m cid new_id parsed) = Inr (aid, addr)" by force
  from create_lead_no_id [OF assms(2)] obtain c where
    c: "fst (lc_create_lead_with_job_type cfg d cid fd
           (if f_service_details fd \<noteq> []
             then build_line_items cfg (f_service_details fd)
                    (or_empty (f_service_request_details fd))
             else None) (format_lead_note fd m) aid addr) = Inr c" "\<not> truthy c"
    by blast
  show ?thesis
    unfolding lead_stage_def Let_def
    by (simp add: fst_bind [OF r] fst_bind [OF c(1)] c(2) ret_def)
qed

lemma create_lead_body_new:
  assumes "fst (form_match sm cfg rx d fd) = Inr m" and "should_create_new m"
  shows "fst (create_lead_body sm cfg rx d fd) =
         fst (bind (lc_create_customer cfg d (fst (form_names fd)) (fst (snd (form_names fd)))
                  (form_email fd) (form_phone cfg fd) (form_parsed_address cfg rx fd)
                  (case f_sms_consent fd of Some b \<Rightarrow> b | None \<Rightarrow> False))
            (\<lambda>cid.
               if \<not> truthy cid then ret (failure None ''Failed to create customer'')
               else lead_stage sm cfg d fd (form_parsed_address cfg rx fd) m cid None))"
  unfolding create_lead_body_def Let_def using assms(2) by (simp add: fst_bind [OF assms(1)])

lemma create_lead_body_existing:
  assumes "fst (form_match sm cfg rx d fd) = Inr m" and "\<not> should_create_new m"
  shows "fst (create_lead_body sm cfg rx d fd) =
         fst (bind (if form_parsed_address cfg rx fd \<noteq> [] \<and> customer_data m \<noteq> None
                then (if should_create_new_address sm (the (customer_data m))
                           (form_parsed_address cfg rx fd)
                      then lc_add_address_to_customer cfg d (customer_id m)
                             (form_parsed_address cfg rx fd)
                      else ret None)
                else ret None)
            (\<lambda>new_address_id.
               lead_stage sm cfg d fd (form_parsed_address cfg rx fd) m (customer_id m)
                 new_address_id))"
  unfolding create_lead_body_def Let_def using assms(2) by (simp add: fst_bind [OF assms(1)])

lemma create_lead_Inr:
  "fst (create_lead_body sm cfg rx d fd) = Inr r \<Longrightarrow> fst (create_lead sm cfg rx d fd) = r"
  by (cases "create_lead_body sm cfg rx d fd") (simp add: create_lead_def)


lemma snd_create_lead: "snd (create_lead sm cfg rx d fd) = snd (create_lead_body sm cfg rx d fd)"
  by (cases "create_lead_body sm cfg rx d fd") (simp add: create_lead_def split: sum.splits)

text \<open>
  Claim C8. When the matcher asks for a new customer and the directory returns no id for
  the customer creation, the workflow returns the failure ``Failed to create customer''
  with no customer id and without any request to create a lead. When the directory returns
  no id for the lead creation, the workflow returns the failure ``Failed to create lead''
  carrying the customer id that was created, or resolved by the matcher, earlier in the run.
\<close>

theorem creation_failures:
  assumes "fst (form_match sm cfg rx d fd) = Inr m"
  shows "(should_create_new m \<and> no_customer_id d \<longrightarrow>
            fst (create_lead sm cfg rx d fd) = failure None ''Failed to create customer''
            \<and> res_customer_id (fst (create_lead sm cfg rx d fd)) = None
            \<and> \<not> success (fst (create_lead sm cfg rx d fd))
            \<and> (\<forall>c \<in> set (snd (create_lead sm cfg rx d fd)). \<not> is_create_lead c))
       \<and> (should_create_new m \<and> cid \<noteq> []
            \<and> (\<forall>p. \<exists>r. create_customer d p = Inr r \<and> result_id r = Some cid)
            \<and> no_lead_id d \<longrightarrow>
            fst (create_lead sm cfg rx d fd) = failure (Some cid) ''Failed to create lead''
            \<and> res_customer_id (fst (create_lead sm cfg rx d fd)) = Some cid)
       \<and> (\<not> should_create_new m \<and> address_ops_return d \<and> no_lead_id d \<longrightarrow>
            fst (create_lead sm cfg rx d fd) = failure (customer_id m) ''Failed to create lead''
            \<and> res_customer_id (fst (create_lead sm cfg rx d fd)) = customer_id m)"
proof (intro conjI impI)
  assume h: "should_create_new m \<and> no_customer_id d"
  from create_customer_no_id [of d] h obtain c where
    c: "fst (lc_create_customer cfg d (fst (form_names fd)) (fst (snd (form_names fd)))
                  (form_email fd) (form_phone cfg fd) (form_parsed_address cfg rx fd)
                  (case f_sms_consent fd of Some b \<Rightarrow> b | None \<Rightarrow> False)) = Inr c"
       "\<not> truthy c"
    by blast
  have b: "fst (create_lead_body sm cfg rx d fd)
             = Inr (failure None ''Failed to create customer'')"
    using h c(2) by (simp add: create_lead_body_new [OF assms] fst_bind [OF c(1)] ret_def)
  show r: "fst (create_lead sm cfg rx d fd) = failure None ''Failed to create customer''"
    using create_lead_Inr [OF b] .
  show "res_customer_id (fst (create_lead sm cfg rx d fd)) = None"
    by (simp add: r failure_def)
  show "\<not> success (fst (create_lead sm cfg rx d fd))"
    by (simp add: r failure_def)
  have "no_lead_calls (create_lead_body sm cfg rx d fd)"
  proof -
    have 1: "no_lead_calls (form_match sm cfg rx d fd)"
      unfolding form_match_def by (rule matcher_calls)
    have 2: "snd (create_lead_body sm cfg rx d fd) =
             snd (form_match sm cfg rx d fd)
             @ snd (lc_create_customer cfg d (fst (form_names fd)) (fst (snd (form_names fd)))
                  (form_email fd) (form_phone cfg fd) (form_parsed_address cfg rx fd)
                  (case f_sms_consent fd of Some b \<Rightarrow> b | None \<Rightarrow> False))"
      unfolding create_lead_body_def Let_def
      using h c(2) by (simp add: snd_bind [OF assms] snd_bind [OF c(1)] ret_def)
    show ?thesis
      using 1 create_customer_calls [of cfg d "fst (form_names fd)" "fst (snd (form_names fd))"
          "form_email fd" "form_phone cfg fd" "form_parsed_address cfg rx fd"
          "case f_sms_consent fd of Some b \<Rightarrow> b | None \<Rightarrow> False"]
      by (auto simp: no_lead_calls_def 2)
  qed
  then show "\<forall>c \<in> set (snd (create_lead sm cfg rx d fd)). \<not> is_create_lead c"
    by (simp add: no_lead_calls_def snd_create_lead)
next
  assume h: "should_create_new m \<and> cid \<noteq> []
            \<and> (\<forall>p. \<exists>r. create_customer d p = Inr r \<and> result_id r = Some cid)
            \<and> no_lead_id d"
  then have c: "fst (lc_create_customer cfg d (fst (form_names fd)) (fst (snd (form_names fd)))
                  (form_email fd) (form_phone cfg fd) (form_parsed_address cfg rx fd)
                  (case f_sms_consent fd of Some b \<Rightarrow> b | None \<Rightarrow> False)) = Inr (Some cid)"
    using create_customer_with_id by blast
  have t: "truthy (Some cid)" using h by (simp add: truthy_def)
  have l: "fst (lead_stage sm cfg d fd (form_parsed_address cfg rx fd) m (Some cid) None)
             = Inr (failure (Some cid) ''Failed to create lead'')"
    using h by (intro lead_stage_no_id) simp_all
  have b: "fst (create_lead_body sm cfg rx d fd)
             = Inr (failure (Some cid) ''Failed to create lead'')"
    using h t l by (simp add: create_lead_body_new [OF assms] fst_bind [OF c])
  show r: "fst (create_lead sm cfg rx d fd) = failure (Some cid) ''Failed to create lead''"
    using create_lead_Inr [OF b] .
  show "res_customer_id (fst (create_lead sm cfg rx d fd)) = Some cid"
    by (simp add: r failure_def)
next
  assume h: "\<not> should_create_new m \<and> address_ops_return d \<and> no_lead_id d"
  have "\<exists>x. fst (if form_parsed_address cfg rx fd \<noteq> [] \<and> customer_data m \<noteq> None
                then (if should_create_new_address sm (the (customer_data m))
                           (form_parsed_address cfg rx fd)
                      then lc_add_address_to_customer cfg d (customer_id m)
                             (form_parsed_address cfg rx fd)
                      else ret None)
                else ret None) = Inr x"
    using h add_address_returns [of d cfg "customer_id m" "form_parsed_address cfg rx fd"]
    by (simp add: ret_def)
  then obtain x where
    x: "fst (if form_parsed_address cfg rx fd \<noteq> [] \<and> customer_data m \<noteq> None
                then (if should_create_new_address sm (the (customer_data m))
                           (form_parsed_address cfg rx fd)
                      then lc_add_address_to_customer cfg d (customer_id m)
                             (form_parsed_address cfg rx fd)
                      else ret None)
                else ret None) = Inr x"
    by blast
  have l: "fst (lead_stage sm cfg d fd (form_parsed_address cfg rx fd) m (customer_id m) x)
             = Inr (failure (customer_id m) ''Failed to create lead'')"
    using h by (intro lead_stage_no_id) simp_all
  have b: "fst (create_lead_body sm cfg rx d fd)
             = Inr (failure (customer_id m) ''Failed to create lead'')"
    using h l by (simp only: create_lead_body_existing [OF assms] fst_bind [OF x] simp_thms)
  show r: "fst (create_lead sm cfg rx d fd) = failure (customer_id m) ''Failed to create lead''"
    using create_lead_Inr [OF b] .
  show "res_customer_id (fst (create_lead sm cfg rx d fd)) = customer_id m"
    by (simp add: r failure_def)
qed

lemma fd0_phone: "form_phone cfg0 fd0 = Some ''+14155551234''"
  by (simp add: form_phone_def cfg0_def fd0_def or_empty_def normalize_phone_def is_digit_def)

lemma fd0_email: "form_email fd0 = ''sarah@test.com''"
  by (simp add: form_email_def fd0_def sanitize_string_def or_empty_def is_space_def strip_def
      lower_def lower_char_def)

lemma fd0_names: "form_names fd0 = (JStr ''Sarah'', JStr ''Lee'', JStr ''Sarah Lee'')"
  by (simp add: form_names_def fd0_def or_empty_def fmt_default_empty_def strip_def is_space_def)

lemma fd0_address: "form_parsed_address cfg0 rx0 fd0 = in_addr"
  by (simp add: form_parsed_address_def fd0_def cfg0_def or_empty_def to_opt_def address_dict_def
      in_addr_def)

lemma fd0_existing: "\<not> form_is_existing fd0"
  by (simp add: form_is_existing_def fd0_def sanitize_string_def or_empty_def is_space_def
      strip_def lower_def lower_char_def)

lemma form_match_fd0:
  "form_match sm cfg0 rx0 d fd0 =
     find_matching_customer sm d (Some ''+14155551234'') (Some ''sarah@test.com'')
       (Some ''Sarah Lee'') in_addr False"
  by (simp add: form_match_def fd0_phone fd0_email fd0_names fd0_address fd0_existing to_opt_def)

lemma run_fd0_both: "fst (form_match seq_ratio cfg0 rx0 stub_both fd0) = Inr m_exact"
  by (simp add: form_match_fd0 find_matching_customer_def stub_both_def stub_phone_only_def
      bind_def request_def ret_def lift_def truthy_def find_exact_matches_def cust1_def
      select_best_match_def subscript_id_def m_exact_def)

lemma run_fd0_empty: "fst (form_match seq_ratio cfg0 rx0 stub_empty fd0) = Inr m_none"
  by (simp add: form_match_fd0 find_matching_customer_def stub_empty_def stub_phone_only_def
      bind_def request_def ret_def lift_def truthy_def find_exact_matches_def m_none_def)

lemma run_fd0_created: "fst (form_match seq_ratio cfg0 rx0 stub_created fd0) = Inr m_none"
  by (simp add: form_match_fd0 find_matching_customer_def stub_created_def stub_empty_def
      stub_phone_only_def bind_def request_def ret_def lift_def truthy_def
      find_exact_matches_def m_none_def)

lemma stub_facts:
  "no_customer_id stub_empty" "no_lead_id stub_created" "no_lead_id stub_both"
  "address_ops_return stub_both"
  "\<forall>p. \<exists>r. create_customer stub_created p = Inr r \<and> result_id r = Some ''C9''"
  by (simp_all add: no_customer_id_def no_lead_id_def address_ops_return_def stub_empty_def
      stub_created_def stub_both_def stub_phone_only_def result_id_def truthy_def dict_get_def)

theorem creation_failures_witness:
  "fst (create_lead seq_ratio cfg0 rx0 stub_empty fd0) = failure None ''Failed to create customer''
   \<and> filter is_create_lead (snd (create_lead seq_ratio cfg0 rx0 stub_empty fd0)) = []
   \<and> fst (create_lead seq_ratio cfg0 rx0 stub_created fd0)
       = failure (Some ''C9'') ''Failed to create lead''
   \<and> fst (create_lead seq_ratio cfg0 rx0 stub_both fd0)
       = failure (Some ''C1'') ''Failed to create lead''"
proof -
  have n: "should_create_new m_none" "\<not> should_create_new m_exact"
          "customer_id m_exact = Some ''C1''" "''C9'' \<noteq> []"
    by (simp_all add: m_none_def m_exact_def)
  show ?thesis
    using creation_failures [OF run_fd0_empty, of "''C9''"]
      creation_failures [OF run_fd0_created, of "''C9''"]
      creation_failures [OF run_fd0_both, of "''C9''"]
      n stub_facts
    by (simp add: filter_empty_conv)
qed

subsection \<open>Faults\<close>






subsection \<open>The second street line of the form\<close>

lemma parse_address_keys: "map fst (parse_address rx s) = address_fields"
  by (simp add: parse_address_def address_dict_def address_fields_def Let_def
      split: option.splits prod.splits)

lemma form_parsed_address_keys: "map fst (form_parsed_address cfg rx fd) = address_fields"
  by (simp add: form_parsed_address_def parse_address_keys)
     (simp add: address_dict_def address_fields_def)

lemma entry_if_missing: "k \<notin> set (map fst a) \<Longrightarrow> entry_if a k = []"
proof -
  assume "k \<notin> set (map fst a)"
  then have "map_of a k = None" by (simp add: map_of_eq_None_iff)
  then show ?thesis by (simp add: entry_if_def get_or_empty_def)
qed

lemma line2_ignored:
  "form_phone cfg (fd\<lparr>f_street_line_2 := v\<rparr>) = form_phone cfg fd"
  "form_email (fd\<lparr>f_street_line_2 := v\<rparr>) = form_email fd"
  "form_names (fd\<lparr>f_street_line_2 := v\<rparr>) = form_names fd"
  "form_is_existing (fd\<lparr>f_street_line_2 := v\<rparr>) = form_is_existing fd"
  "form_parsed_address cfg rx (fd\<lparr>f_street_line_2 := v\<rparr>) = form_parsed_address cfg rx fd"
  "format_lead_note (fd\<lparr>f_street_line_2 := v\<rparr>) m = format_lead_note fd m"
  "lead_payload_of cfg cid (fd\<lparr>f_street_line_2 := v\<rparr>) items note aid addr
     = lead_payload_of cfg cid fd items note aid addr"
  by (simp_all add: form_phone_def form_email_def form_names_def form_is_existing_def
      form_parsed_address_def format_lead_note_def lead_payload_of_def)

lemma line2_ignored_stages:
  "form_match sm cfg rx d (fd\<lparr>f_street_line_2 := v\<rparr>) = form_match sm cfg rx d fd"
  "lc_create_lead_with_job_type cfg d cid (fd\<lparr>f_street_line_2 := v\<rparr>) items note aid addr
     = lc_create_lead_with_job_type cfg d cid fd items note aid addr"
  "lead_stage sm cfg d (fd\<lparr>f_street_line_2 := v\<rparr>) parsed m cid new_id
     = lead_stage sm cfg d fd parsed m cid new_id"
  by (simp_all add: form_match_def lc_create_lead_with_job_type_def lead_stage_def Let_def
      line2_ignored)

lemma line2_ignored_body:
  "create_lead_body sm cfg rx d (fd\<lparr>f_street_line_2 := v\<rparr>) = create_lead_body sm cfg rx d fd"
  by (simp add: create_lead_body_def Let_def line2_ignored line2_ignored_stages cong: if_cong)

text \<open>
  Claim C10. The parsed address that \<open>create_lead\<close> builds has exactly the keys street,
  city, state and zip, so no entry for a second street line is read from it: the payload of
  a customer creation, the payload of an address creation and the inline address of a lead
  are built without one. A second street line supplied in the form changes neither the
  result of the workflow nor any request it sends to the directory.
\<close>

theorem street_line_2_never_sent:
  "map fst (form_parsed_address cfg rx fd) = [''street'', ''city'', ''state'', ''zip'']
 \<and> dict_get (form_parsed_address cfg rx fd) ''street_line_2'' = None
 \<and> entry_if (form_parsed_address cfg rx fd) ''street_line_2'' = []
 \<and> cp_addresses (customer_payload_of cfg fnm lnm em phone (form_parsed_address cfg rx fd) sms)
     = (if any_values (form_parsed_address cfg rx fd)
        then Some [entry_if (form_parsed_address cfg rx fd) ''street''
                   @ entry_if (form_parsed_address cfg rx fd) ''city''
                   @ entry_if (form_parsed_address cfg rx fd) ''state''
                   @ entry_if (form_parsed_address cfg rx fd) ''zip''
                   @ [(''country'', Some ''US'')]]
        else None)
 \<and> address_payload_of cfg (form_parsed_address cfg rx fd)
     = [(''type'', Some ''service'')] @ entry_if (form_parsed_address cfg rx fd) ''street''
       @ entry_if (form_parsed_address cfg rx fd) ''city''
       @ state_entry cfg (form_parsed_address cfg rx fd)
       @ entry_if (form_parsed_address cfg rx fd) ''zip'' @ [(''country'', Some ''US'')]
 \<and> build_address_dict cfg (form_parsed_address cfg rx fd)
     = (if any_values (form_parsed_address cfg rx fd)
        then Some (entry_if (form_parsed_address cfg rx fd) ''street''
                   @ entry_if (form_parsed_address cfg rx fd) ''city''
                   @ state_entry cfg (form_parsed_address cfg rx fd)
                   @ entry_if (form_parsed_address cfg rx fd) ''zip''
                   @ [(''country'', Some ''US'')])
        else None)
 \<and> create_lead sm cfg rx d (fd\<lparr>f_street_line_2 := v\<rparr>) = create_lead sm cfg rx d fd"
proof -
  let ?pa = "form_parsed_address cfg rx fd"
  have k: "map fst ?pa = [''street'', ''city'', ''state'', ''zip'']"
    using form_parsed_address_keys [of cfg rx fd] by (simp add: address_fields_def)
  then have n2: "''street_line_2'' \<notin> set (map fst ?pa)" "''country'' \<notin> set (map fst ?pa)"
    by simp_all
  have m2: "map_of ?pa ''street_line_2'' = None" "map_of ?pa ''country'' = None"
    using n2 by (simp_all add: map_of_eq_None_iff)
  have e2: "entry_if ?pa ''street_line_2'' = []" using n2(1) by (rule entry_if_missing)
  have c: "country_entry ?pa = [(''country'', Some ''US'')]"
    using m2(2) by (simp add: country_entry_def get_or_empty_def)
  have ne: "?pa \<noteq> []" using k by auto
  have g: "dict_get ?pa ''street_line_2'' = None" using m2(1) by (simp add: dict_get_def)
  have cl: "create_lead sm cfg rx d (fd\<lparr>f_street_line_2 := v\<rparr>) = create_lead sm cfg rx d fd"
    by (simp add: create_lead_def line2_ignored_body)
  show ?thesis
    using k g e2 c ne cl
    by (simp add: customer_payload_of_def address_payload_of_def build_address_dict_def)
qed

theorem street_line_2_never_sent_witness:
  "f_street_line_2 fd0 = JStr ''Apt 4''
 \<and> form_parsed_address cfg0 rx0 fd0
     = [(''street'', Some ''12 Oak St''), (''city'', Some ''Oakland''), (''state'', Some ''CA''),
        (''zip'', Some ''94601'')]
 \<and> dict_get (form_parsed_address cfg0 rx0 fd0) ''street_line_2'' = None
 \<and> cp_addresses (customer_payload_of cfg0 (JStr ''Sarah'') (JStr ''Lee'') ''sarah@test.com''
       (Some ''+14155551234'') (form_parsed_address cfg0 rx0 fd0) True)
     = Some [[(''street'', Some ''12 Oak St''), (''city'', Some ''Oakland''),
              (''state'', Some ''CA''), (''zip'', Some ''94601''), (''country'', Some ''US'')]]
 \<and> create_lead seq_ratio cfg0 rx0 stub_created (fd0\<lparr>f_street_line_2 := Absent\<rparr>)
     = create_lead seq_ratio cfg0 rx0 stub_created fd0"
proof -
  have a: "any_values in_addr" by (simp add: any_values_def in_addr_def truthy_def)
  have e: "entry_if in_addr ''street'' = [(''street'', Some ''12 Oak St'')]"
          "entry_if in_addr ''city'' = [(''city'', Some ''Oakland'')]"
          "entry_if in_addr ''state'' = [(''state'', Some ''CA'')]"
          "entry_if in_addr ''zip'' = [(''zip'', Some ''94601'')]"
    by (simp_all add: entry_if_def get_or_empty_def in_addr_def)
  have f: "f_street_line_2 fd0 = JStr ''Apt 4''" by (simp add: fd0_def)
  have i: "in_addr = [(''street'', Some ''12 Oak St''), (''city'', Some ''Oakland''),
                      (''state'', Some ''CA''), (''zip'', Some ''94601'')]"
    by (simp add: in_addr_def)
  show ?thesis
    using street_line_2_never_sent [of cfg0 rx0 fd0 "JStr ''Sarah''" "JStr ''Lee''"
        "''sarah@test.com''" "Some ''+14155551234''" True seq_ratio stub_created Absent]
    unfolding fd0_address
    using a e f i by simp
qed

end
